theory Spec2Isabelle
  imports Complex_Main "HOL-Library.Log_Nat"
begin

section \<open>The weather-data edge functions\<close>

text \<open>
  A shallow embedding of \<^verbatim>\<open>supabase/functions/weather-data/index.ts\<close>. The file holds
  two request handlers: the forecast handler (first \<^verbatim>\<open>Deno.serve\<close>) and the
  current-weather handler (second \<^verbatim>\<open>Deno.serve\<close>).

  Conventions of the embedding:
  \<^item> A JavaScript number is an IEEE 754 double. A finite double is the rational
    number it denotes (\<^typ>\<open>rat\<close>; the sign of zero, which no response shows, is
    dropped); \<^verbatim>\<open>NaN\<close> and the infinities are constructors of \<open>jsnum\<close>. The
    additions, the divisions and the products of the handlers round their exact
    result to the nearest double, ties to even (\<open>nearest\<close>), and, where the operands
    allow it, overflow to an infinity (\<open>fl\<close>); a product of a double below 1 and 8 or
    4 is exact. A decimal of the upstream JSON, such as 20.56, reaches the handler as
    the double nearest to it, \<open>nearest (2056 / 100)\<close>.
  \<^item> A body that parses as JSON has the shape the handlers read: the forecast body is
    its \<^verbatim>\<open>list\<close> of samples, each with a timestamp, a temperature, a first
    weather description and a wind speed; the fields of the current-weather body are
    optional, as the source reads them with \<^verbatim>\<open>?.\<close>.
  \<^item> A time value is an integer number of milliseconds since the epoch, as in
    \<^verbatim>\<open>Date\<close>.
  \<^item> \<^verbatim>\<open>null\<close> and \<^verbatim>\<open>undefined\<close> are \<^const>\<open>None\<close>.
  \<^item> A thrown \<^verbatim>\<open>Error\<close> is \<^const>\<open>Inl\<close> of its message.
\<close>

subsection \<open>Numbers\<close>

datatype jsnum = Num rat | NaN | PosInf | NegInf


text \<open>
  Rounding to a double. \<open>pow2 e\<close> is \<open>2\<^sup>e\<close>; \<open>ilog2 x\<close> is the binary exponent of a
  positive \<open>x\<close>, the \<open>e\<close> with \<open>2\<^sup>e \<le> x < 2\<^sup>e\<^sup>+\<^sup>1\<close>, found from the bit lengths of
  numerator and denominator; \<open>round_half_even\<close> is the nearest integer, a tie going to
  the even one; \<open>expo x\<close> is the exponent of the double format, at least -1022.
  \<open>nearest x\<close> is the multiple of the unit in the last place (53 significant bits,
  so \<open>2\<^sup>e\<^sup>-\<^sup>5\<^sup>2\<close> for the exponent \<open>e\<close>, at least \<open>2\<^sup>-\<^sup>1\<^sup>0\<^sup>7\<^sup>4\<close>) nearest to \<open>x\<close>; \<open>fl x\<close> is the double of the exact result \<open>x\<close>: \<open>nearest x\<close>, or an
  infinity when that is beyond the largest double, that is, of magnitude \<open>2\<^sup>1\<^sup>0\<^sup>2\<^sup>4\<close>
  or more.
\<close>

definition pow2 :: "int \<Rightarrow> rat" where
  "pow2 e = (if 0 \<le> e then 2 ^ nat e else 1 / 2 ^ nat (- e))"

definition round_half_even :: "rat \<Rightarrow> int" where
  "round_half_even x =
     (let f = \<lfloor>x\<rfloor>; r = x - of_int f
      in if r < 1 / 2 then f else if 1 / 2 < r then f + 1 else if even f then f else f + 1)"

definition ilog2 :: "rat \<Rightarrow> int" where
  "ilog2 x =
     (case quotient_of x of
        (p, q) \<Rightarrow> let e0 = bitlen p - bitlen q in if pow2 e0 \<le> x then e0 else e0 - 1)"

definition expo :: "rat \<Rightarrow> int" where
  "expo x = max (ilog2 x) (- 1022)"

definition nearest :: "rat \<Rightarrow> rat" where
  "nearest x =
     (if x = 0 then 0
      else let ulp = pow2 (expo \<bar>x\<bar> - 52);
               m = round_half_even (\<bar>x\<bar> / ulp)
           in sgn x * of_int m * ulp)"

definition fl :: "rat \<Rightarrow> jsnum" where
  "fl x =
     (let y = nearest x
      in if y \<noteq> 0 \<and> 1024 \<le> ilog2 \<bar>y\<bar> then (if 0 < y then PosInf else NegInf)
         else Num y)"

text \<open>\<^verbatim>\<open>a + b\<close> on numbers.\<close>

fun js_add :: "jsnum \<Rightarrow> jsnum \<Rightarrow> jsnum" where
  "js_add (Num a) (Num b) = fl (a + b)"
| "js_add NaN _ = NaN"
| "js_add _ NaN = NaN"
| "js_add PosInf NegInf = NaN"
| "js_add NegInf PosInf = NaN"
| "js_add PosInf _ = PosInf"
| "js_add _ PosInf = PosInf"
| "js_add NegInf _ = NegInf"
| "js_add _ NegInf = NegInf"

text \<open>\<^verbatim>\<open>a / n\<close> where \<open>n\<close> is the length of an array.\<close>

fun js_div_length :: "jsnum \<Rightarrow> nat \<Rightarrow> jsnum" where
  "js_div_length NaN n = NaN"
| "js_div_length PosInf n = PosInf"
| "js_div_length NegInf n = NegInf"
| "js_div_length (Num a) n =
     (if n = 0 then (if a = 0 then NaN else if 0 < a then PosInf else NegInf)
      else fl (a / of_nat n))"

text \<open>
  \<^verbatim>\<open>Math.round(x)\<close>: the nearest integer, a tie going up; on a double the result is
  exact. \<open>js_round\<close> is \<^verbatim>\<open>Math.round\<close> on any number.
\<close>

definition math_round :: "rat \<Rightarrow> int" where
  "math_round x = \<lfloor>x + 1 / 2\<rfloor>"

fun js_round :: "jsnum \<Rightarrow> jsnum" where
  "js_round (Num x) = Num (of_int (math_round x))"
| "js_round v = v"

text \<open>
  \<^verbatim>\<open>x.toFixed(1)\<close> on a finite \<open>x\<close>: the string of the tenth nearest to the exact
  value of \<open>x\<close>, a tie going to the larger magnitude; \<open>toFixed1 x\<close> is the number
  this string denotes. \<^verbatim>\<open>parseFloat\<close> gives the double nearest to it; the strings
  of \<^verbatim>\<open>NaN\<close> and the infinities parse to themselves.
\<close>

definition toFixed1 :: "rat \<Rightarrow> rat" where
  "toFixed1 x =
     (if x < 0 then - (of_int \<lfloor>(- x) * 10 + 1 / 2\<rfloor> / 10)
      else of_int \<lfloor>x * 10 + 1 / 2\<rfloor> / 10)"

fun parseFloat_toFixed1 :: "jsnum \<Rightarrow> jsnum" where
  "parseFloat_toFixed1 (Num x) = fl (toFixed1 x)"
| "parseFloat_toFixed1 v = v"

text \<open>\<^verbatim>\<open>a % b\<close> on integers: the remainder has the sign of the dividend.\<close>

definition js_rem :: "int \<Rightarrow> int \<Rightarrow> int" where
  "js_rem a b = (if a < 0 then - ((- a) mod \<bar>b\<bar>) else a mod \<bar>b\<bar>)"

text \<open>\<^verbatim>\<open>xs[i]\<close>: \<^verbatim>\<open>undefined\<close> outside the array.\<close>

definition js_index :: "'a list \<Rightarrow> int \<Rightarrow> 'a option" where
  "js_index xs i = (if 0 \<le> i \<and> i < int (length xs) then Some (xs ! nat i) else None)"

text \<open>\<^verbatim>\<open>Math.max(...xs)\<close> and \<^verbatim>\<open>Math.min(...xs)\<close>.\<close>

fun math_max :: "rat list \<Rightarrow> jsnum" where
  "math_max [] = NegInf"
| "math_max (x # xs) = Num (fold max xs x)"

fun math_min :: "rat list \<Rightarrow> jsnum" where
  "math_min [] = PosInf"
| "math_min (x # xs) = Num (fold min xs x)"

text \<open>\<^verbatim>\<open>xs.reduce((a, b) => a + b, 0)\<close>: the sum from the left, each step rounded.\<close>

definition reduce_sum :: "jsnum list \<Rightarrow> jsnum" where
  "reduce_sum xs = foldl js_add (Num 0) xs"

text \<open>
  \<^verbatim>\<open>xs.reduce((a, b) => a + b, 0) / xs.length\<close>: \<^verbatim>\<open>0 / 0\<close> is \<^verbatim>\<open>NaN\<close>.
\<close>

definition mean :: "jsnum list \<Rightarrow> jsnum" where
  "mean xs = js_div_length (reduce_sum xs) (length xs)"

text \<open>The decimal rendering of a status code in a template string.\<close>

definition digit :: "nat \<Rightarrow> char" where
  "digit n = ''0123456789'' ! (n mod 10)"

fun string_of_nat :: "nat \<Rightarrow> string" where
  "string_of_nat n =
     (if n < 10 then [digit n] else string_of_nat (n div 10) @ [digit (n mod 10)])"

subsection \<open>Dates\<close>

text \<open>
  The calendar of \<^verbatim>\<open>Date\<close>: a time value is valid within 8.64e15 ms of the epoch;
  \<open>civil_from_days\<close> turns a day number (days since 1970-01-01) into year, month and
  day of the proleptic Gregorian calendar, counting from 0000-03-01 in cycles of 400,
  100, 4 and 1 years.
\<close>

definition msPerDay :: int where
  "msPerDay = 86400000"

definition validTime :: "int \<Rightarrow> bool" where
  "validTime t = (\<bar>t\<bar> \<le> 8640000000000000)"

definition civil_from_days :: "int \<Rightarrow> int \<times> int \<times> int" where
  "civil_from_days z =
     (let z0 = z + 719468;
          era = z0 div 146097;
          doe = z0 mod 146097;
          c = min 3 (doe div 36524);
          r1 = doe - c * 36524;
          q = r1 div 1461;
          r2 = r1 mod 1461;
          yy = min 3 (r2 div 365);
          doy = r2 - yy * 365;
          mp = (5 * doy + 2) div 153;
          d = doy - (153 * mp + 2) div 5 + 1;
          m = (if mp < 10 then mp + 3 else mp - 9);
          y = era * 400 + c * 100 + q * 4 + yy + (if m \<le> 2 then 1 else 0)
      in (y, m, d))"

text \<open>
  \<^verbatim>\<open>new Date(t).getDate()\<close>: the day of the month in the runtime's local time zone;
  \<open>tz t\<close> is the offset of local time from UTC, in milliseconds, in force at \<open>t\<close>.
  An invalid date gives \<^verbatim>\<open>NaN\<close>, here \<^const>\<open>None\<close>.
\<close>

definition getDate :: "(int \<Rightarrow> int) \<Rightarrow> int \<Rightarrow> int option" where
  "getDate tz t =
     (if validTime t then Some (snd (snd (civil_from_days ((t + tz t) div msPerDay))))
      else None)"

text \<open>The runtime whose local time is UTC.\<close>

definition utc :: "int \<Rightarrow> int" where
  "utc t = 0"

text \<open>A runtime whose local time is nine hours ahead of UTC, all year.\<close>

definition utc_plus_9 :: "int \<Rightarrow> int" where
  "utc_plus_9 t = 32400000"

text \<open>\<^verbatim>\<open>a !== b\<close> on two day numbers: \<^verbatim>\<open>NaN\<close> differs from everything.\<close>

definition strict_neq :: "int option \<Rightarrow> int option \<Rightarrow> bool" where
  "strict_neq a b = (a = None \<or> b = None \<or> a \<noteq> b)"

definition pad2 :: "int \<Rightarrow> string" where
  "pad2 n = [digit (nat (n div 10)), digit (nat n)]"

definition pad4 :: "int \<Rightarrow> string" where
  "pad4 n = digit (nat (n div 1000)) # digit (nat (n div 100)) # pad2 n"

definition pad6 :: "int \<Rightarrow> string" where
  "pad6 n = digit (nat (n div 100000)) # digit (nat (n div 10000)) # pad4 n"

text \<open>The year of \<^verbatim>\<open>toISOString\<close>: four digits, or a sign and six digits.\<close>

definition isoYear :: "int \<Rightarrow> string" where
  "isoYear y =
     (if 0 \<le> y \<and> y \<le> 9999 then pad4 y
      else if y < 0 then CHR ''-'' # pad6 (- y) else CHR ''+'' # pad6 y)"

text \<open>
  \<^verbatim>\<open>new Date(t).toISOString().split('T')[0]\<close>: the UTC date as \<^verbatim>\<open>YYYY-MM-DD\<close>;
  \<^verbatim>\<open>toISOString\<close> throws a \<^verbatim>\<open>RangeError\<close> on an invalid date.
\<close>

definition dateKey :: "int \<Rightarrow> string + string" where
  "dateKey t =
     (if validTime t then
        (case civil_from_days (t div msPerDay) of
           (y, m, d) \<Rightarrow> Inr (isoYear y @ ''-'' @ pad2 m @ ''-'' @ pad2 d))
      else Inl ''Invalid time value'')"

subsection \<open>The forecast handler: aggregation of the 3-hour series\<close>

text \<open>
  One element of \<^verbatim>\<open>weatherJson.list\<close>, with the fields the handler reads:
  \<^verbatim>\<open>item.dt\<close> (epoch seconds), \<^verbatim>\<open>item.main.temp\<close>,
  \<^verbatim>\<open>item.weather[0].description\<close> and \<^verbatim>\<open>item.wind.speed\<close> (m/s). The two
  numbers are the finite doubles that the parsing of the body gave.
\<close>

record item =
  dt :: int
  temp :: rat
  description :: string
  speed :: rat

text \<open>A value of the \<^verbatim>\<open>dailyForecasts\<close> map.\<close>

record samples =
  temps :: "rat list"
  conditions :: "string list"
  windSpeeds :: "jsnum list"

text \<open>
  \<^verbatim>\<open>interface DayForecast\<close>; \<open>day_conditions\<close> and \<open>day_wind_speed\<close> are its
  fields \<^verbatim>\<open>conditions\<close> and \<^verbatim>\<open>wind_speed\<close>.
\<close>

record DayForecast =
  date :: string
  temperature_max :: jsnum
  temperature_min :: jsnum
  temperature_avg :: jsnum
  day_conditions :: "string option"
  day_wind_speed :: jsnum

text \<open>
  \<^verbatim>\<open>parseFloat((item.wind.speed * 3.6).toFixed(1))\<close>; the literal \<^verbatim>\<open>3.6\<close> is the
  double nearest to 3.6.
\<close>

definition windSpeedKmh :: "rat \<Rightarrow> jsnum" where
  "windSpeedKmh s = parseFloat_toFixed1 (fl (s * nearest (36 / 10)))"

text \<open>
  The \<^verbatim>\<open>Map\<close> is a list of entries in insertion order, each key once:
  \<^verbatim>\<open>has\<close>, \<^verbatim>\<open>set\<close>, and the mutation of the value that \<^verbatim>\<open>get\<close> returns.
\<close>

definition map_has :: "(string \<times> samples) list \<Rightarrow> string \<Rightarrow> bool" where
  "map_has m k = (k \<in> set (map fst m))"

fun map_modify ::
  "string \<Rightarrow> (samples \<Rightarrow> samples) \<Rightarrow> (string \<times> samples) list \<Rightarrow> (string \<times> samples) list"
where
  "map_modify k f [] = []"
| "map_modify k f ((k', v) # m) =
     (if k' = k then (k', f v) # m else (k', v) # map_modify k f m)"

definition map_set ::
  "string \<Rightarrow> samples \<Rightarrow> (string \<times> samples) list \<Rightarrow> (string \<times> samples) list"
where
  "map_set k v m = (if map_has m k then map_modify k (\<lambda>_. v) m else m @ [(k, v)])"

text \<open>The body of \<^verbatim>\<open>list.forEach\<close> for one item.\<close>

definition add_sample ::
  "(string \<times> samples) list \<Rightarrow> item \<Rightarrow> string + (string \<times> samples) list"
where
  "add_sample dailyForecasts it =
     (case dateKey (dt it * 1000) of
        Inl e \<Rightarrow> Inl e
      | Inr k \<Rightarrow>
          let kmh = windSpeedKmh (speed it);
              m = (if \<not> map_has dailyForecasts k
                   then map_set k \<lparr>temps = [], conditions = [], windSpeeds = []\<rparr> dailyForecasts
                   else dailyForecasts)
          in Inr (map_modify k
                    (\<lambda>data. \<lparr>temps = temps data @ [temp it],
                             conditions = conditions data @ [description it],
                             windSpeeds = windSpeeds data @ [kmh]\<rparr>) m))"

fun forEach_add ::
  "(string \<times> samples) list \<Rightarrow> item list \<Rightarrow> string + (string \<times> samples) list"
where
  "forEach_add m [] = Inr m"
| "forEach_add m (it # its) =
     (case add_sample m it of Inl e \<Rightarrow> Inl e | Inr m' \<Rightarrow> forEach_add m' its)"

text \<open>
  The predicate of \<^verbatim>\<open>weatherJson.list.filter\<close>:
  \<^verbatim>\<open>new Date(item.dt * 1000).getDate() !== now.getDate()\<close>.
\<close>

definition keep_item :: "(int \<Rightarrow> int) \<Rightarrow> int \<Rightarrow> item \<Rightarrow> bool" where
  "keep_item tz now it = strict_neq (getDate tz (dt it * 1000)) (getDate tz now)"

text \<open>The \<^verbatim>\<open>dailyForecasts\<close> map after the \<^verbatim>\<open>forEach\<close>.\<close>

definition dailyForecasts ::
  "(int \<Rightarrow> int) \<Rightarrow> int \<Rightarrow> item list \<Rightarrow> string + (string \<times> samples) list"
where
  "dailyForecasts tz now series = forEach_add [] (filter (keep_item tz now) series)"

text \<open>The function mapped over the entries: one \<^verbatim>\<open>DayForecast\<close> per date group.\<close>

definition dayForecast :: "string \<times> samples \<Rightarrow> DayForecast" where
  "dayForecast e =
     (case e of (k, data) \<Rightarrow>
        \<lparr>date = k,
         temperature_max = math_max (temps data),
         temperature_min = math_min (temps data),
         temperature_avg = parseFloat_toFixed1 (mean (map Num (temps data))),
         day_conditions = js_index (conditions data) (int (length (conditions data)) div 2),
         day_wind_speed = js_round (mean (windSpeeds data))\<rparr>)"

text \<open>
  \<^verbatim>\<open>Array.from(dailyForecasts.entries()).slice(0, 5).map(...)\<close>: the \<^verbatim>\<open>forecast\<close>
  array, or the error thrown while grouping.
\<close>

definition forecast_of :: "(int \<Rightarrow> int) \<Rightarrow> int \<Rightarrow> item list \<Rightarrow> string + DayForecast list" where
  "forecast_of tz now series =
     (case dailyForecasts tz now series of
        Inl e \<Rightarrow> Inl e
      | Inr m \<Rightarrow> Inr (map dayForecast (take 5 m)))"

text \<open>
  The order of first appearance, in the words of the specification: each element once,
  at the place where it first occurs.
\<close>

fun first_appearance :: "'a list \<Rightarrow> 'a list" where
  "first_appearance [] = []"
| "first_appearance (x # xs) = x # first_appearance (filter (\<lambda>y. y \<noteq> x) xs)"

text \<open>A date group that holds at least one sample of each kind.\<close>

definition filled :: "samples \<Rightarrow> bool" where
  "filled data = (temps data \<noteq> [] \<and> conditions data \<noteq> [] \<and> windSpeeds data \<noteq> [])"

subsection \<open>The current-weather handler: normalisation\<close>

text \<open>
  The upstream JSON of the current-weather endpoint, with the fields the handler
  reads; every level is optional, as the \<^verbatim>\<open>?.\<close> of the source allows.
  \<open>weather\<close> holds, for each element of the \<^verbatim>\<open>weather\<close> array, its
  \<^verbatim>\<open>description\<close>.
\<close>

record main_json =
  main_temp :: "rat option"
  main_humidity :: "rat option"

record wind_json =
  wind_speed_ms :: "rat option"
  wind_deg :: "rat option"

record weather_json =
  main :: "main_json option"
  wind :: "wind_json option"
  weather :: "string option list option"

text \<open>\<^verbatim>\<open>interface WeatherData\<close>.\<close>

record WeatherData =
  location :: string
  temperature :: "rat option"
  humidity :: "rat option"
  wind_speed :: "rat option"
  wind_direction :: "string option"
  weather_description :: "string option"
  fetched_at :: int

definition directions :: "string list" where
  "directions = [''N'', ''NE'', ''E'', ''SE'', ''S'', ''SW'', ''W'', ''NW'']"

definition degToCardinal :: "rat \<Rightarrow> string option" where
  "degToCardinal deg = js_index directions (js_rem (math_round (nearest (deg / 45))) 8)"

text \<open>\<^verbatim>\<open>x || null\<close> on an optional number and on an optional string.\<close>

definition num_or_null :: "rat option \<Rightarrow> rat option" where
  "num_or_null x = (case x of None \<Rightarrow> None | Some v \<Rightarrow> if v = 0 then None else Some v)"

definition str_or_null :: "string option \<Rightarrow> string option" where
  "str_or_null x = (case x of None \<Rightarrow> None | Some s \<Rightarrow> if s = [] then None else Some s)"

text \<open>The \<^verbatim>\<open>weatherData\<close> object literal.\<close>

definition weatherData :: "string \<Rightarrow> int \<Rightarrow> weather_json \<Rightarrow> WeatherData" where
  "weatherData loc now js =
     \<lparr>location = loc,
      temperature = num_or_null (Option.bind (main js) main_temp),
      humidity = num_or_null (Option.bind (main js) main_humidity),
      wind_speed = num_or_null (Option.bind (wind js) wind_speed_ms),
      wind_direction =
        (case Option.bind (wind js) wind_deg of
           None \<Rightarrow> None
         | Some d \<Rightarrow> if d = 0 then None else degToCardinal d),
      weather_description =
        str_or_null (Option.bind (Option.bind (weather js) (\<lambda>a. js_index a 0)) (\<lambda>d. d)),
      fetched_at = now\<rparr>"

subsection \<open>Requests, responses and the collaborators of a handler\<close>

text \<open>
  A request: its method and the value of \<^verbatim>\<open>url.searchParams.get('location')\<close>
  (\<^const>\<open>None\<close> when the parameter is absent).
\<close>

record request =
  http_method :: string
  location_param :: "string option"

text \<open>\<^verbatim>\<open>url.searchParams.get('location') || 'Santiago'\<close>.\<close>

definition location_of :: "request \<Rightarrow> string" where
  "location_of req =
     (case location_param req of
        None \<Rightarrow> ''Santiago''
      | Some l \<Rightarrow> if l = [] then ''Santiago'' else l)"

text \<open>
  The body of a response: none, the success envelope
  \<^verbatim>\<open>{ data, source, message }\<close>, or the error envelope \<^verbatim>\<open>{ error, details }\<close>.
\<close>

datatype 'd body = NoBody | Success 'd string string | Failure string string

record 'd response =
  status :: nat
  headers :: "(string \<times> string) list"
  body :: "'d body"

definition corsHeaders :: "(string \<times> string) list" where
  "corsHeaders =
     [(''Access-Control-Allow-Origin'', ''*''),
      (''Access-Control-Allow-Headers'', ''authorization, x-client-info, apikey, content-type'')]"

definition jsonHeaders :: "(string \<times> string) list" where
  "jsonHeaders = corsHeaders @ [(''Content-Type'', ''application/json'')]"

text \<open>
  \<^verbatim>\<open>new Response(null, { headers })\<close>, the answer to a preflight request; a
  \<^verbatim>\<open>Response\<close> without status has 200.
\<close>

definition preflight :: "(string \<times> string) list \<Rightarrow> 'd response" where
  "preflight hs = \<lparr>status = 200, headers = hs, body = NoBody\<rparr>"

definition success :: "'d \<Rightarrow> string \<Rightarrow> string \<Rightarrow> 'd response" where
  "success d src msg = \<lparr>status = 200, headers = jsonHeaders, body = Success d src msg\<rparr>"

text \<open>The \<^verbatim>\<open>catch\<close> block: every value thrown in a handler is an \<^verbatim>\<open>Error\<close>.\<close>

definition failure :: "string \<Rightarrow> 'd response" where
  "failure errorMessage =
     \<lparr>status = 500, headers = jsonHeaders,
      body = Failure errorMessage ''Failed to fetch weather data''\<rparr>"

text \<open>
  What \<^verbatim>\<open>fetch\<close> and \<^verbatim>\<open>weatherResponse.json()\<close> yield: \<^verbatim>\<open>fetch\<close> throws,
  or answers with a status and a body whose parsing throws (\<^const>\<open>Inl\<close>) or gives
  the JSON value.
\<close>

datatype 'j fetch_result = FetchThrows string | HttpResponse nat "string + 'j"

text \<open>\<^verbatim>\<open>weatherResponse.ok\<close>.\<close>

definition response_ok :: "nat \<Rightarrow> bool" where
  "response_ok st = (200 \<le> st \<and> st \<le> 299)"

text \<open>\<^verbatim>\<open>!OPENWEATHER_API_KEY\<close> is false: the variable is set and not empty.\<close>

definition key_set :: "string option \<Rightarrow> bool" where
  "key_set k = (case k of None \<Rightarrow> False | Some s \<Rightarrow> s \<noteq> [])"

text \<open>
  What a handler sees of the world during one request: the rows of its cache table,
  whether the store fails a read or a write, the provider key of the environment, the
  answer of the upstream provider, the local time zone, the readings of the clock
  (\<^verbatim>\<open>Date.now()\<close> of the cache cutoff, \<^verbatim>\<open>new Date()\<close> of the aggregation, of the
  payload and of the inserted row) and the successive values of \<^verbatim>\<open>Math.random()\<close>.
\<close>

record ('row, 'j) world =
  rows :: "'row list"
  select_error :: "string option"
  insert_error :: "string option"
  api_key :: "string option"
  upstream :: "'j fetch_result"
  tz :: "int \<Rightarrow> int"
  now_lookup :: int
  now_process :: int
  now_payload :: int
  now_insert :: int
  random :: "nat \<Rightarrow> rat"

text \<open>
  What a handler does to the world, in order: the cache read (location and cutoff),
  the upstream call (endpoint and location) and the cache write (the row).
\<close>

datatype 'row event = CacheSelect string int | UpstreamGet string string | CacheInsert 'row

text \<open>
  \<^verbatim>\<open>.order('fetched_at', { ascending: false }).limit(1)\<close>: a row with the greatest
  \<^verbatim>\<open>fetched_at\<close>; among rows with equal timestamps the store is free to choose, and
  the model takes the first of them.
\<close>

fun newest :: "('row \<Rightarrow> int) \<Rightarrow> 'row list \<Rightarrow> 'row option" where
  "newest stamp [] = None"
| "newest stamp (r # rs) =
     (case newest stamp rs of
        None \<Rightarrow> Some r
      | Some r' \<Rightarrow> if stamp r < stamp r' then Some r' else Some r)"

text \<open>
  The cache read
  \<^verbatim>\<open>.eq('location', location).gte('fetched_at', cutoff)...maybeSingle()\<close>:
  the pair \<^verbatim>\<open>{ data, error }\<close>.
\<close>

definition select_latest ::
  "('row \<Rightarrow> string) \<Rightarrow> ('row \<Rightarrow> int) \<Rightarrow> ('row, 'j) world \<Rightarrow> string \<Rightarrow> int
     \<Rightarrow> 'row option \<times> string option"
where
  "select_latest loc stamp w l cutoff =
     (case select_error w of
        Some e \<Rightarrow> (None, Some e)
      | None \<Rightarrow> (newest stamp (filter (\<lambda>r. loc r = l \<and> cutoff \<le> stamp r) (rows w)), None))"

text \<open>The cache write \<^verbatim>\<open>.insert(row)\<close>: the rows afterwards and \<^verbatim>\<open>{ error }\<close>.\<close>

definition insert_row :: "('row, 'j) world \<Rightarrow> 'row \<Rightarrow> 'row list \<times> string option" where
  "insert_row w r =
     (case insert_error w of
        Some e \<Rightarrow> (rows w, Some e)
      | None \<Rightarrow> (rows w @ [r], None))"

text \<open>What a handler returns: the response, what it did, and the rows afterwards.\<close>

record ('d, 'row) outcome =
  response :: "'d response"
  trace :: "'row event list"
  rows_after :: "'row list"

subsection \<open>The forecast handler\<close>

text \<open>\<^verbatim>\<open>interface ForecastData\<close> and a row of \<^verbatim>\<open>forecast_cache\<close>.\<close>

record ForecastData =
  fc_location :: string
  forecast :: "DayForecast list"
  fc_fetched_at :: int

record forecast_row =
  row_location :: string
  forecast_data :: ForecastData
  row_fetched_at :: int

text \<open>
  The first \<^verbatim>\<open>Deno.serve\<close> callback: preflight, cache read with a cutoff of six
  hours, provider key (its absence is an error), upstream call, aggregation, cache
  write (its error is only logged), response; the \<^verbatim>\<open>catch\<close> block turns every
  throw into the 500 response.
\<close>

definition forecast_handler ::
  "request \<Rightarrow> (forecast_row, item list) world \<Rightarrow> (ForecastData, forecast_row) outcome"
where
  "forecast_handler req w =
     (if http_method req = ''OPTIONS'' then
        \<lparr>response = preflight corsHeaders, trace = [], rows_after = rows w\<rparr>
      else
        let l = location_of req;
            sixHoursAgo = now_lookup w - 6 * 60 * 60 * 1000;
            sel = CacheSelect l sixHoursAgo;
            get = UpstreamGet ''forecast'' l
        in
          case select_latest row_location row_fetched_at w l sixHoursAgo of
            (Some cachedData, None) \<Rightarrow>
              \<lparr>response = success (forecast_data cachedData) ''cache''
                            ''Data from cache (less than 6 hours old)'',
               trace = [sel], rows_after = rows w\<rparr>
          | _ \<Rightarrow>
              if \<not> key_set (api_key w) then
                \<lparr>response = failure ''OPENWEATHER_API_KEY is not set in environment secrets.'',
                 trace = [sel], rows_after = rows w\<rparr>
              else
                case upstream w of
                  FetchThrows e \<Rightarrow>
                    \<lparr>response = failure e, trace = [sel, get], rows_after = rows w\<rparr>
                | HttpResponse st js \<Rightarrow>
                    if \<not> response_ok st then
                      \<lparr>response = failure (''Weather API error: '' @ string_of_nat st),
                       trace = [sel, get], rows_after = rows w\<rparr>
                    else
                      case js of
                        Inl e \<Rightarrow>
                          \<lparr>response = failure e, trace = [sel, get], rows_after = rows w\<rparr>
                      | Inr series \<Rightarrow>
                          case forecast_of (tz w) (now_process w) series of
                            Inl e \<Rightarrow>
                              \<lparr>response = failure e, trace = [sel, get], rows_after = rows w\<rparr>
                          | Inr fc \<Rightarrow>
                              let forecastData =
                                    \<lparr>fc_location = l, forecast = fc,
                                     fc_fetched_at = now_payload w\<rparr>;
                                  row = \<lparr>row_location = l, forecast_data = forecastData,
                                         row_fetched_at = now_insert w\<rparr>
                              in
                                case insert_row w row of
                                  (rows', insertError) \<Rightarrow>
                                    \<lparr>response = success forecastData ''api''
                                                  ''Fresh 5-day forecast from OpenWeatherMap'',
                                     trace = [sel, get, CacheInsert row],
                                     rows_after = rows'\<rparr>)"

subsection \<open>The current-weather handler\<close>

definition descriptions :: "string list" where
  "descriptions = [''Despejado'', ''Parcialmente nublado'', ''Nublado'', ''Viento'']"

text \<open>
  The \<^verbatim>\<open>mockData\<close> object literal; the five calls of \<^verbatim>\<open>Math.random()\<close> are
  \<open>random w 0\<close> to \<open>random w 4\<close>, in the order of the fields.
\<close>

definition mockData :: "string \<Rightarrow> (WeatherData, weather_json) world \<Rightarrow> WeatherData" where
  "mockData l w =
     \<lparr>location = l,
      temperature = Some (nearest (18 + nearest (random w 0 * 10))),
      humidity = Some (nearest (50 + nearest (random w 1 * 30))),
      wind_speed = Some (nearest (5 + nearest (random w 2 * 15))),
      wind_direction = js_index directions \<lfloor>random w 3 * 8\<rfloor>,
      weather_description = js_index descriptions \<lfloor>random w 4 * 4\<rfloor>,
      fetched_at = now_payload w\<rparr>"

text \<open>
  The second \<^verbatim>\<open>Deno.serve\<close> callback: as the first, with a cutoff of thirty
  minutes, the mock snapshot in place of an error when the provider key is absent, and
  the normalisation in place of the aggregation.
\<close>

definition weather_handler ::
  "request \<Rightarrow> (WeatherData, weather_json) world \<Rightarrow> (WeatherData, WeatherData) outcome"
where
  "weather_handler req w =
     (if http_method req = ''OPTIONS'' then
        \<lparr>response = preflight corsHeaders, trace = [], rows_after = rows w\<rparr>
      else
        let l = location_of req;
            thirtyMinutesAgo = now_lookup w - 30 * 60 * 1000;
            sel = CacheSelect l thirtyMinutesAgo;
            get = UpstreamGet ''weather'' l
        in
          case select_latest location fetched_at w l thirtyMinutesAgo of
            (Some cachedData, None) \<Rightarrow>
              \<lparr>response = success cachedData ''cache''
                            ''Data from cache (less than 30 minutes old)'',
               trace = [sel], rows_after = rows w\<rparr>
          | _ \<Rightarrow>
              if \<not> key_set (api_key w) then
                let mock = mockData l w in
                  case insert_row w mock of
                    (rows', _) \<Rightarrow>
                      \<lparr>response = success mock ''mock''
                         ''Mock data - Add OPENWEATHER_API_KEY secret for real weather data'',
                       trace = [sel, CacheInsert mock], rows_after = rows'\<rparr>
              else
                case upstream w of
                  FetchThrows e \<Rightarrow>
                    \<lparr>response = failure e, trace = [sel, get], rows_after = rows w\<rparr>
                | HttpResponse st js \<Rightarrow>
                    if \<not> response_ok st then
                      \<lparr>response = failure (''Weather API error: '' @ string_of_nat st),
                       trace = [sel, get], rows_after = rows w\<rparr>
                    else
                      case js of
                        Inl e \<Rightarrow>
                          \<lparr>response = failure e, trace = [sel, get], rows_after = rows w\<rparr>
                      | Inr weatherJson \<Rightarrow>
                          let data = weatherData l (now_payload w) weatherJson in
                            case insert_row w data of
                              (rows', insertError) \<Rightarrow>
                                \<lparr>response = success data ''api''
                                              ''Fresh data from weather service'',
                                 trace = [sel, get, CacheInsert data],
                                 rows_after = rows'\<rparr>)"

subsection \<open>Sample requests and worlds\<close>

text \<open>
  A request for Valparaiso at 2024-01-10T01:00:00Z, and worlds around it: a snapshot
  cached 400 seconds earlier, a forecast cached one hour earlier, a provider that
  answers 404, and a store and an environment that can be varied field by field.
\<close>

definition sample_request :: request where
  "sample_request = \<lparr>http_method = ''GET'', location_param = Some ''Valparaiso''\<rparr>"

definition sample_snapshot :: WeatherData where
  "sample_snapshot =
     \<lparr>location = ''Valparaiso'', temperature = Some 17, humidity = Some 60,
      wind_speed = Some 4, wind_direction = Some ''SW'',
      weather_description = Some ''nubes'', fetched_at = 1704848000000\<rparr>"

definition sample_weather_json :: weather_json where
  "sample_weather_json =
     \<lparr>main = Some \<lparr>main_temp = Some (185 / 10), main_humidity = Some 55\<rparr>,
      wind = Some \<lparr>wind_speed_ms = Some 3, wind_deg = Some 90\<rparr>,
      weather = Some [Some ''cielo claro'']\<rparr>"

definition sample_weather_world :: "(WeatherData, weather_json) world" where
  "sample_weather_world =
     \<lparr>rows = [sample_snapshot], select_error = None, insert_error = None,
      api_key = Some ''key'', upstream = HttpResponse 404 (Inl ''Unexpected token''),
      tz = utc, now_lookup = 1704848400000, now_process = 1704848400000,
      now_payload = 1704848400100, now_insert = 1704848400100,
      random = (\<lambda>i. 1 / 2)\<rparr>"

definition sample_series :: "item list" where
  "sample_series =
     [\<lparr>dt = 1704898800, temp = 20, description = ''nubes'', speed = 10\<rparr>,
      \<lparr>dt = 1704931200, temp = nearest (1856 / 100), description = ''lluvia'', speed = 5\<rparr>,
      \<lparr>dt = 1704942000, temp = nearest (2056 / 100), description = ''nubes'', speed = 10\<rparr>]"

definition sample_forecast :: "DayForecast list" where
  "sample_forecast =
     [\<lparr>date = ''2024-01-11'', temperature_max = Num (nearest (2056 / 100)),
       temperature_min = Num (nearest (1856 / 100)), temperature_avg = Num (nearest (196 / 10)),
       day_conditions = Some ''nubes'', day_wind_speed = Num 27\<rparr>]"

definition sample_forecast_row :: forecast_row where
  "sample_forecast_row =
     \<lparr>row_location = ''Valparaiso'',
      forecast_data = \<lparr>fc_location = ''Valparaiso'', forecast = sample_forecast,
                        fc_fetched_at = 1704844800000\<rparr>,
      row_fetched_at = 1704844800000\<rparr>"

definition sample_forecast_world :: "(forecast_row, item list) world" where
  "sample_forecast_world =
     \<lparr>rows = [sample_forecast_row], select_error = None, insert_error = None,
      api_key = Some ''key'', upstream = HttpResponse 404 (Inl ''Unexpected token''),
      tz = utc, now_lookup = 1704848400000, now_process = 1704848400000,
      now_payload = 1704848400100, now_insert = 1704848400200,
      random = (\<lambda>i. 1 / 2)\<rparr>"

section \<open>Properties\<close>

subsection \<open>Rounding to a double\<close>

text \<open>
  \<open>ilog2\<close> is the binary exponent; rounding to the nearest double is monotone, so it
  keeps a number between two doubles that enclose it.
\<close>

lemma pow2_powi: "pow2 e = 2 powi e"
  by (simp add: pow2_def power_int_def inverse_eq_divide power_one_over)

lemma pow2_pos: "0 < pow2 e"
  by (simp add: pow2_powi zero_less_power_int)

lemma pow2_add: "pow2 (a + b) = pow2 a * pow2 b"
  by (simp add: pow2_powi power_int_add)

lemma pow2_mono: "a \<le> b \<Longrightarrow> pow2 a \<le> pow2 b"
  by (simp add: pow2_powi power_int_increasing)

lemma pow2_less: "pow2 a < pow2 b \<Longrightarrow> a < b"
  using pow2_mono [of b a] by (cases "a < b") auto

lemma pow2_nat: "0 \<le> e \<Longrightarrow> pow2 e = 2 ^ nat e"
  by (simp add: pow2_def)

lemma bitlen_pow2_bounds:
  assumes "0 < p"
  shows "pow2 (bitlen p - 1) \<le> of_int p" and "of_int p < pow2 (bitlen p)"
proof -
  from bitlen_bounds [OF assms]
  have b: "2 ^ nat (bitlen p - 1) \<le> p" "p < 2 ^ nat (bitlen p)" by simp_all
  have ge1: "1 \<le> bitlen p" using assms bitlen_eq_zero_iff [of p] bitlen_nonneg [of p] by linarith
  have "(of_int (2 ^ nat (bitlen p - 1)) :: rat) \<le> of_int p" using b(1) by (simp only: of_int_le_iff)
  then show "pow2 (bitlen p - 1) \<le> of_int p" using ge1 by (simp add: pow2_nat)
  have "(of_int p :: rat) < of_int (2 ^ nat (bitlen p))" using b(2) by (simp only: of_int_less_iff)
  then show "of_int p < pow2 (bitlen p)" using ge1 by (simp add: pow2_nat)
qed

lemma ilog2_bounds:
  assumes "0 < x"
  shows "pow2 (ilog2 x) \<le> x \<and> x < pow2 (ilog2 x + 1)"
proof -
  obtain p q where pq: "quotient_of x = (p, q)" by (cases "quotient_of x")
  have q: "0 < q" using quotient_of_denom_pos [OF pq] .
  have x: "x = of_int p / of_int q" using quotient_of_div [OF pq] .
  have p: "0 < p" using assms q x by (simp add: zero_less_divide_iff)
  note bp = bitlen_pow2_bounds [OF p] and bq = bitlen_pow2_bounds [OF q]
  let ?e0 = "bitlen p - bitlen q"
  have qpos: "(0 :: rat) < of_int q" using q by simp
  have up: "x < pow2 (?e0 + 1)"
  proof -
    have "of_int p < pow2 (bitlen p)" by (rule bp(2))
    also have "\<dots> = pow2 (?e0 + 1) * pow2 (bitlen q - 1)"
      by (simp add: pow2_add [symmetric])
    also have "\<dots> \<le> pow2 (?e0 + 1) * of_int q"
      using bq(1) pow2_pos [of "?e0 + 1"] by (simp add: mult_left_mono)
    finally show ?thesis using qpos by (simp add: x pos_divide_less_eq)
  qed
  have lo: "pow2 (?e0 - 1) \<le> x"
  proof -
    have "pow2 (?e0 - 1) * of_int q \<le> pow2 (?e0 - 1) * pow2 (bitlen q)"
      using bq(2) pow2_pos [of "?e0 - 1"] by (simp add: mult_left_mono)
    also have "\<dots> = pow2 (bitlen p - 1)"
      by (simp add: pow2_add [symmetric])
    also have "\<dots> \<le> of_int p" by (rule bp(1))
    finally show ?thesis using qpos by (simp add: x pos_le_divide_eq)
  qed
  show ?thesis
  proof (cases "pow2 ?e0 \<le> x")
    case True
    then have "ilog2 x = ?e0" by (simp add: ilog2_def pq Let_def)
    then show ?thesis using True up by simp
  next
    case False
    then have "ilog2 x = ?e0 - 1" by (simp add: ilog2_def pq Let_def)
    then show ?thesis using False lo by simp
  qed
qed


lemma round_half_even_int: "round_half_even (of_int k) = k"
  by (simp add: round_half_even_def)

lemma round_half_even_zero: "round_half_even 0 = 0"
  by (simp add: round_half_even_def)

lemma pow2_53: "pow2 53 = of_int (2 ^ 53)"
  by (simp add: pow2_def)

lemma pow2_52: "pow2 52 = of_int (2 ^ 52)"
  by (simp add: pow2_def)

lemma pow2_split53: "pow2 (e + 1) = of_int (2 ^ 53) * pow2 (e - 52)"
proof -
  have "e + 1 = 53 + (e - 52)" by linarith
  then have "pow2 (e + 1) = pow2 (53 + (e - 52))" by (rule arg_cong)
  also have "\<dots> = pow2 53 * pow2 (e - 52)" by (rule pow2_add)
  finally show ?thesis by (simp only: pow2_53)
qed

lemma pow2_split52: "pow2 e = of_int (2 ^ 52) * pow2 (e - 52)"
proof -
  have "e = 52 + (e - 52)" by linarith
  then have "pow2 e = pow2 (52 + (e - 52))" by (rule arg_cong)
  also have "\<dots> = pow2 52 * pow2 (e - 52)" by (rule pow2_add)
  finally show ?thesis by (simp only: pow2_52)
qed

lemma round_half_even_cases:
  "round_half_even x = \<lfloor>x\<rfloor> \<and> x - of_int \<lfloor>x\<rfloor> \<le> 1 / 2 \<or>
   round_half_even x = \<lfloor>x\<rfloor> + 1 \<and> 1 / 2 \<le> x - of_int \<lfloor>x\<rfloor>"
  by (auto simp: round_half_even_def Let_def)

lemma round_half_even_mono:
  assumes "x \<le> y"
  shows "round_half_even x \<le> round_half_even y"
proof -
  have f: "\<lfloor>x\<rfloor> \<le> \<lfloor>y\<rfloor>" using assms by (rule floor_mono)
  show ?thesis
  proof (cases "\<lfloor>x\<rfloor> = \<lfloor>y\<rfloor>")
    case True
    have r: "x - of_int \<lfloor>x\<rfloor> \<le> y - of_int \<lfloor>y\<rfloor>" using assms True by simp
    show ?thesis
      using r True by (auto simp: round_half_even_def Let_def)
  next
    case False
    then have "\<lfloor>x\<rfloor> + 1 \<le> \<lfloor>y\<rfloor>" using f by linarith
    moreover have "round_half_even x \<le> \<lfloor>x\<rfloor> + 1"
      using round_half_even_cases [of x] by linarith
    moreover have "\<lfloor>y\<rfloor> \<le> round_half_even y"
      using round_half_even_cases [of y] by linarith
    ultimately show ?thesis by linarith
  qed
qed

lemma nearest_pos:
  "0 < x \<Longrightarrow> nearest x = of_int (round_half_even (x / pow2 (expo x - 52))) * pow2 (expo x - 52)"
  by (simp add: nearest_def Let_def)

lemma nearest_minus: "nearest (- x) = - nearest x"
  by (simp add: nearest_def Let_def sgn_minus)

lemma nearest_upper:
  assumes "0 < x"
  shows "nearest x \<le> pow2 (expo x + 1)"
proof -
  let ?u = "pow2 (expo x - 52)"
  have u: "0 < ?u" by (rule pow2_pos)
  have "x < pow2 (ilog2 x + 1)" using ilog2_bounds [OF assms] by simp
  also have "\<dots> \<le> pow2 (expo x + 1)" by (rule pow2_mono) (simp add: expo_def)
  also have "\<dots> = of_int (2 ^ 53) * ?u" by (rule pow2_split53)
  finally have "x / ?u \<le> of_int (2 ^ 53)" using u by (simp add: pos_divide_le_eq)
  then have "round_half_even (x / ?u) \<le> 2 ^ 53"
    using round_half_even_mono [of "x / ?u" "of_int (2 ^ 53)"]
    by (simp only: round_half_even_int)
  then have "of_int (round_half_even (x / ?u)) * ?u \<le> of_int (2 ^ 53) * ?u"
    using u by (simp only: mult_right_mono of_int_le_iff less_imp_le)
  also have "\<dots> = pow2 (expo x + 1)" by (rule pow2_split53 [symmetric])
  finally show ?thesis by (simp only: nearest_pos [OF assms])
qed

lemma nearest_lower:
  assumes "0 < x" and "- 1022 \<le> ilog2 x"
  shows "pow2 (expo x) \<le> nearest x"
proof -
  let ?u = "pow2 (expo x - 52)"
  have u: "0 < ?u" by (rule pow2_pos)
  have e: "expo x = ilog2 x" using assms(2) by (simp add: expo_def)
  have p: "pow2 (expo x) = of_int (2 ^ 52) * ?u" by (rule pow2_split52)
  have "pow2 (expo x) \<le> x" using ilog2_bounds [OF assms(1)] e by simp
  then have "of_int (2 ^ 52) \<le> x / ?u" using u by (simp add: p pos_le_divide_eq)
  then have "2 ^ 52 \<le> round_half_even (x / ?u)"
    using round_half_even_mono [of "of_int (2 ^ 52)" "x / ?u"]
    by (simp only: round_half_even_int)
  then have "of_int (2 ^ 52) * ?u \<le> of_int (round_half_even (x / ?u)) * ?u"
    using u by (simp only: mult_right_mono of_int_le_iff less_imp_le)
  then show ?thesis by (simp only: nearest_pos [OF assms(1)] p)
qed

lemma nearest_nonneg: "0 \<le> x \<Longrightarrow> 0 \<le> nearest x"
proof (cases "x = 0")
  case True
  then show ?thesis by (simp add: nearest_def)
next
  case False
  assume "0 \<le> x"
  then have x: "0 < x" using False by simp
  have "0 \<le> x / pow2 (expo x - 52)" using x pow2_pos [of "expo x - 52"] by simp
  then have "0 \<le> round_half_even (x / pow2 (expo x - 52))"
    using round_half_even_mono [of 0 "x / pow2 (expo x - 52)"]
    by (simp add: round_half_even_zero)
  then show ?thesis
    using pow2_pos [of "expo x - 52"] by (simp add: nearest_pos [OF x])
qed

lemma ilog2_mono:
  assumes "0 < x" "x \<le> y"
  shows "ilog2 x \<le> ilog2 y"
proof (rule ccontr)
  assume "\<not> ilog2 x \<le> ilog2 y"
  then have "ilog2 y + 1 \<le> ilog2 x" by simp
  then have "pow2 (ilog2 y + 1) \<le> pow2 (ilog2 x)" by (rule pow2_mono)
  also have "\<dots> \<le> x" using ilog2_bounds [OF assms(1)] by simp
  also have "\<dots> \<le> y" by (rule assms(2))
  also have "\<dots> < pow2 (ilog2 y + 1)" using ilog2_bounds [of y] assms by simp
  finally show False by simp
qed

lemma nearest_mono_pos:
  assumes "0 < x" "x \<le> y"
  shows "nearest x \<le> nearest y"
proof -
  have y: "0 < y" using assms by simp
  have le: "expo x \<le> expo y" using ilog2_mono [OF assms] by (simp add: expo_def)
  show ?thesis
  proof (cases "expo x = expo y")
    case True
    let ?u = "pow2 (expo y - 52)"
    have u: "0 < ?u" by (rule pow2_pos)
    have "x / ?u \<le> y / ?u" using assms(2) u by (simp add: divide_right_mono)
    then have "round_half_even (x / ?u) \<le> round_half_even (y / ?u)"
      by (rule round_half_even_mono)
    then have "of_int (round_half_even (x / ?u)) * ?u \<le> of_int (round_half_even (y / ?u)) * ?u"
      using u by (simp only: mult_right_mono of_int_le_iff less_imp_le)
    then show ?thesis by (simp only: nearest_pos [OF assms(1)] nearest_pos [OF y] True)
  next
    case False
    then have lt: "expo x + 1 \<le> expo y" using le by simp
    then have "- 1022 \<le> ilog2 y" by (simp add: expo_def)
    from nearest_lower [OF y this] have "pow2 (expo y) \<le> nearest y" .
    moreover have "nearest x \<le> pow2 (expo x + 1)" by (rule nearest_upper [OF assms(1)])
    moreover have "pow2 (expo x + 1) \<le> pow2 (expo y)" using lt by (rule pow2_mono)
    ultimately show ?thesis by linarith
  qed
qed

lemma nearest_mono:
  assumes "x \<le> y"
  shows "nearest x \<le> nearest y"
proof -
  consider "0 < x" | "x \<le> 0" "0 \<le> y" | "y < 0" using assms by linarith
  then show ?thesis
  proof cases
    case 1
    then show ?thesis using assms by (rule nearest_mono_pos)
  next
    case 2
    have "nearest x \<le> 0" using nearest_nonneg [of "- x"] 2(1) by (simp add: nearest_minus)
    moreover have "0 \<le> nearest y" using 2(2) by (rule nearest_nonneg)
    ultimately show ?thesis by simp
  next
    case 3
    then have "0 < - y" "- y \<le> - x" using assms by simp_all
    then have "nearest (- y) \<le> nearest (- x)" by (rule nearest_mono_pos)
    then show ?thesis by (simp add: nearest_minus)
  qed
qed

lemma nearest_between:
  assumes "a \<le> x" "x \<le> b" "nearest a = a" "nearest b = b"
  shows "a \<le> nearest x \<and> nearest x \<le> b"
  using nearest_mono [OF assms(1)] nearest_mono [OF assms(2)] assms(3,4) by simp

text \<open>The bounds of the mock snapshot, and the quotients of the cardinal points, are doubles.\<close>

lemma nearest_fixed:
  "nearest 0 = 0" "nearest 1 = 1" "nearest 2 = 2" "nearest 4 = 4" "nearest 5 = 5"
  "nearest 6 = 6" "nearest 10 = 10" "nearest 15 = 15" "nearest 18 = 18" "nearest 20 = 20"
  "nearest 28 = 28" "nearest 30 = 30" "nearest 50 = 50" "nearest 80 = 80"
  by code_simp+

subsection \<open>Arithmetic of the aggregation\<close>

lemma floor_rat_numeral: "\<lfloor>numeral a / numeral b :: rat\<rfloor> = numeral a div numeral b"
  by (metis floor_divide_of_int_eq of_int_numeral)

lemma math_max_eq: "xs \<noteq> [] \<Longrightarrow> math_max xs = Num (Max (set xs))"
  by (cases xs) (simp_all add: Max.set_eq_fold [symmetric])

lemma math_min_eq: "xs \<noteq> [] \<Longrightarrow> math_min xs = Num (Min (set xs))"
  by (cases xs) (simp_all add: Min.set_eq_fold [symmetric])

text \<open>
  Finite terms never sum to \<^verbatim>\<open>NaN\<close>: an overflow gives an infinity, and a sum that
  has reached an infinity stays there.
\<close>

lemma fl_not_NaN: "fl x \<noteq> NaN"
  by (simp add: fl_def Let_def)

lemma js_add_Num_not_NaN: "a \<noteq> NaN \<Longrightarrow> js_add a (Num b) \<noteq> NaN"
  by (cases a) (simp_all add: fl_not_NaN)

lemma foldl_js_add_not_NaN: "a \<noteq> NaN \<Longrightarrow> foldl js_add a (map Num xs) \<noteq> NaN"
  by (induction xs arbitrary: a) (simp_all add: js_add_Num_not_NaN)

lemma mean_not_NaN:
  assumes "xs \<noteq> []"
  shows "mean (map Num xs) \<noteq> NaN"
proof -
  have s: "reduce_sum (map Num xs) \<noteq> NaN"
    unfolding reduce_sum_def by (rule foldl_js_add_not_NaN) simp
  have n: "length (map Num xs) \<noteq> 0" using assms by simp
  show ?thesis
    unfolding mean_def using s n
    by (cases "reduce_sum (map Num xs)") (simp_all add: fl_not_NaN)
qed

lemma parseFloat_toFixed1_not_NaN: "v \<noteq> NaN \<Longrightarrow> parseFloat_toFixed1 v \<noteq> NaN"
  by (cases v) (simp_all add: fl_not_NaN)



lemma windSpeedKmh_10: "windSpeedKmh 10 = Num 36"
  by code_simp

lemma dateKey_day1: "dateKey 86400000 = Inr ''1970-01-02''"
  by code_simp

text \<open>
  C8: in the aggregation of the forecast handler a wind speed of 10 m/s becomes exactly
  36.0 km/h (in doubles, the product of 10 and the double of 3.6 rounds to 36), and 36
  is the value stored in the date group, before any averaging.
\<close>

theorem C8_wind_speed_conversion:
  "windSpeedKmh 10 = Num 36 \<and>
   dailyForecasts utc 0 [\<lparr>dt = 86400, temp = t, description = d, speed = 10\<rparr>]
     = Inr [(''1970-01-02'', \<lparr>temps = [t], conditions = [d], windSpeeds = [Num 36]\<rparr>)]"
proof -
  have k: "keep_item utc 0 \<lparr>dt = 86400, temp = t, description = d, speed = 10\<rparr>"
    unfolding keep_item_def strict_neq_def by code_simp
  show ?thesis
    using k
    by (simp add: dailyForecasts_def add_sample_def dateKey_day1 windSpeedKmh_10
        map_has_def map_set_def)
qed




subsection \<open>Normalisation of the current weather\<close>

text \<open>
  C4: \<open>degToCardinal\<close> maps 0 to N, and the handler maps 45, 90, 180 and 270 degrees
  to NE, E, S and W; but the handler tests \<^verbatim>\<open>weatherJson.wind?.deg\<close> for truthiness
  before it calls \<open>degToCardinal\<close>, so a direction of 0 degrees is recorded as
  \<^verbatim>\<open>null\<close> and not as N.
\<close>

theorem C4_zero_degrees_recorded_as_null:
  "degToCardinal 0 = Some ''N'' \<and>
   wind_direction (weatherData l t
       \<lparr>main = m, wind = Some \<lparr>wind_speed_ms = s, wind_deg = Some 0\<rparr>, weather = ws\<rparr>) = None \<and>
   map (\<lambda>d. wind_direction (weatherData l t
              \<lparr>main = m, wind = Some \<lparr>wind_speed_ms = s, wind_deg = Some d\<rparr>, weather = ws\<rparr>))
       [45, 90, 180, 270]
     = [Some ''NE'', Some ''E'', Some ''S'', Some ''W'']"
  by (simp add: weatherData_def degToCardinal_def math_round_def js_rem_def js_index_def
      directions_def floor_rat_numeral nearest_fixed)

text \<open>
  C10: a numeric field of the upstream response that is present and equal to 0
  (temperature, humidity, wind speed, wind direction) is recorded as \<^verbatim>\<open>null\<close>, and
  the snapshot is the one the handler builds when the field is absent.
\<close>

theorem C10_zero_recorded_as_null:
  "temperature (weatherData l t
       \<lparr>main = Some \<lparr>main_temp = Some 0, main_humidity = h\<rparr>, wind = w, weather = ws\<rparr>) = None \<and>
   weatherData l t \<lparr>main = Some \<lparr>main_temp = Some 0, main_humidity = h\<rparr>, wind = w, weather = ws\<rparr>
     = weatherData l t \<lparr>main = Some \<lparr>main_temp = None, main_humidity = h\<rparr>, wind = w, weather = ws\<rparr> \<and>
   humidity (weatherData l t
       \<lparr>main = Some \<lparr>main_temp = c, main_humidity = Some 0\<rparr>, wind = w, weather = ws\<rparr>) = None \<and>
   weatherData l t \<lparr>main = Some \<lparr>main_temp = c, main_humidity = Some 0\<rparr>, wind = w, weather = ws\<rparr>
     = weatherData l t \<lparr>main = Some \<lparr>main_temp = c, main_humidity = None\<rparr>, wind = w, weather = ws\<rparr> \<and>
   wind_speed (weatherData l t
       \<lparr>main = m, wind = Some \<lparr>wind_speed_ms = Some 0, wind_deg = d\<rparr>, weather = ws\<rparr>) = None \<and>
   weatherData l t \<lparr>main = m, wind = Some \<lparr>wind_speed_ms = Some 0, wind_deg = d\<rparr>, weather = ws\<rparr>
     = weatherData l t \<lparr>main = m, wind = Some \<lparr>wind_speed_ms = None, wind_deg = d\<rparr>, weather = ws\<rparr> \<and>
   wind_direction (weatherData l t
       \<lparr>main = m, wind = Some \<lparr>wind_speed_ms = s, wind_deg = Some 0\<rparr>, weather = ws\<rparr>) = None \<and>
   weatherData l t \<lparr>main = m, wind = Some \<lparr>wind_speed_ms = s, wind_deg = Some 0\<rparr>, weather = ws\<rparr>
     = weatherData l t \<lparr>main = m, wind = Some \<lparr>wind_speed_ms = s, wind_deg = None\<rparr>, weather = ws\<rparr>"
  by (simp add: weatherData_def num_or_null_def)

subsection \<open>The date groups of the forecast\<close>

lemma map_fst_map_modify: "map fst (map_modify k f m) = map fst m"
  by (induction m) auto

lemma map_modify_pred:
  "\<forall>e \<in> set m. P (snd e) \<Longrightarrow> (\<And>v. P (f v)) \<Longrightarrow> \<forall>e \<in> set (map_modify k f m). P (snd e)"
  by (induction m) (force split: if_splits)+

lemma map_modify_append_new:
  "k \<notin> set (map fst m) \<Longrightarrow> map_modify k f (m @ [(k, v)]) = m @ [(k, f v)]"
  by (induction m) auto

lemma add_sample_keys:
  assumes "add_sample m it = Inr m'"
  shows "\<exists>k. dateKey (dt it * 1000) = Inr k \<and>
             map fst m' = (if k \<in> set (map fst m) then map fst m else map fst m @ [k])"
  using assms
  by (auto simp: add_sample_def map_has_def map_set_def map_fst_map_modify Let_def
           split: sum.splits if_splits)

text \<open>One step of the loop keeps every group filled: a new group gets its first sample
  in the same step.\<close>

lemma add_sample_filled:
  assumes "add_sample m it = Inr m'" and "\<forall>e \<in> set m. filled (snd e)"
  shows "\<forall>e \<in> set m'. filled (snd e)"
proof -
  obtain k where k: "dateKey (dt it * 1000) = Inr k"
    using assms(1) by (auto simp: add_sample_def split: sum.splits)
  let ?push = "\<lambda>data. \<lparr>temps = temps data @ [temp it],
                         conditions = conditions data @ [description it],
                         windSpeeds = windSpeeds data @ [windSpeedKmh (speed it)]\<rparr>"
  have push: "filled (?push d)" for d by (simp add: filled_def)
  show ?thesis
  proof (cases "k \<in> set (map fst m)")
    case True
    then have m': "m' = map_modify k ?push m"
      using assms(1) k by (simp add: add_sample_def map_has_def Let_def)
    show ?thesis
      unfolding m' by (rule map_modify_pred [OF assms(2)]) (rule push)
  next
    case False
    then have m': "m' = m @ [(k, ?push \<lparr>temps = [], conditions = [], windSpeeds = []\<rparr>)]"
      using assms(1) k
      by (simp add: add_sample_def map_has_def map_set_def Let_def map_modify_append_new)
    show ?thesis using assms(2) unfolding m' by (auto simp: filled_def)
  qed
qed

lemma forEach_add_filled:
  "forEach_add m its = Inr m' \<Longrightarrow> \<forall>e \<in> set m. filled (snd e) \<Longrightarrow> \<forall>e \<in> set m'. filled (snd e)"
proof (induction its arbitrary: m)
  case Nil
  then show ?case by simp
next
  case (Cons it its)
  from Cons.prems(1) obtain m1 where
    m1: "add_sample m it = Inr m1" "forEach_add m1 its = Inr m'"
    by (auto split: sum.splits)
  from add_sample_filled [OF m1(1) Cons.prems(2)] have "\<forall>e \<in> set m1. filled (snd e)" .
  from Cons.IH [OF m1(2) this] show ?case .
qed

text \<open>
  C9: every date group of the map, when the map is transformed, holds at least one
  temperature, one condition and one wind speed; so the middle index is within the
  conditions, maximum and minimum are numbers of the group, the average is not
  \<^verbatim>\<open>NaN\<close> and the condition of the day is defined.
\<close>

theorem C9_groups_never_empty:
  assumes "dailyForecasts zone now series = Inr m" and "(k, data) \<in> set m"
  shows "temps data \<noteq> [] \<and> conditions data \<noteq> [] \<and> windSpeeds data \<noteq> [] \<and>
         0 \<le> int (length (conditions data)) div 2 \<and>
         int (length (conditions data)) div 2 < int (length (conditions data)) \<and>
         (\<exists>a. temperature_max (dayForecast (k, data)) = Num a) \<and>
         (\<exists>a. temperature_min (dayForecast (k, data)) = Num a) \<and>
         temperature_avg (dayForecast (k, data)) \<noteq> NaN \<and>
         (\<exists>c. day_conditions (dayForecast (k, data)) = Some c)"
proof -
  have "\<forall>e \<in> set m. filled (snd e)"
    using forEach_add_filled [of "[]" _ m] assms(1) by (simp add: dailyForecasts_def)
  then have f: "filled data" using assms(2) by force
  then have ne: "temps data \<noteq> []" "conditions data \<noteq> []" "windSpeeds data \<noteq> []"
    by (simp_all add: filled_def)
  have len: "0 < int (length (conditions data))" using ne(2) by simp
  have mid: "0 \<le> int (length (conditions data)) div 2"
    "int (length (conditions data)) div 2 < int (length (conditions data))"
    using len by linarith+
  have mx: "\<exists>a. temperature_max (dayForecast (k, data)) = Num a"
    using ne(1) by (simp add: dayForecast_def math_max_eq)
  have mn: "\<exists>a. temperature_min (dayForecast (k, data)) = Num a"
    using ne(1) by (simp add: dayForecast_def math_min_eq)
  have av: "temperature_avg (dayForecast (k, data)) \<noteq> NaN"
    using parseFloat_toFixed1_not_NaN [OF mean_not_NaN [OF ne(1)]]
    by (simp add: dayForecast_def)
  have cd: "\<exists>c. day_conditions (dayForecast (k, data)) = Some c"
    using mid by (simp add: dayForecast_def js_index_def)
  show ?thesis using ne mid mx mn av cd by blast
qed

theorem C9_groups_never_empty_witness:
  "dailyForecasts utc 1704848400000
     [\<lparr>dt = 1704931200, temp = nearest (1856 / 100), description = ''lluvia'', speed = 5\<rparr>,
      \<lparr>dt = 1704942000, temp = nearest (2056 / 100), description = ''nubes'', speed = 10\<rparr>]
   = Inr [(''2024-01-11'',
           \<lparr>temps = [nearest (1856 / 100), nearest (2056 / 100)], conditions = [''lluvia'', ''nubes''],
            windSpeeds = [Num 18, Num 36]\<rparr>)] \<and>
   temps \<lparr>temps = [nearest (1856 / 100), nearest (2056 / 100)], conditions = [''lluvia'', ''nubes''],
          windSpeeds = [Num 18, Num 36]\<rparr> \<noteq> [] \<and>
   int (length (conditions \<lparr>temps = [nearest (1856 / 100), nearest (2056 / 100)],
                            conditions = [''lluvia'', ''nubes''], windSpeeds = [Num 18, Num 36]\<rparr>)) div 2
     < int (length (conditions \<lparr>temps = [nearest (1856 / 100), nearest (2056 / 100)],
                                conditions = [''lluvia'', ''nubes''], windSpeeds = [Num 18, Num 36]\<rparr>))"
proof -
  have ev: "dailyForecasts utc 1704848400000
     [\<lparr>dt = 1704931200, temp = nearest (1856 / 100), description = ''lluvia'', speed = 5\<rparr>,
      \<lparr>dt = 1704942000, temp = nearest (2056 / 100), description = ''nubes'', speed = 10\<rparr>]
   = Inr [(''2024-01-11'',
           \<lparr>temps = [nearest (1856 / 100), nearest (2056 / 100)], conditions = [''lluvia'', ''nubes''],
            windSpeeds = [Num 18, Num 36]\<rparr>)]"
    by code_simp
  show ?thesis
    using ev C9_groups_never_empty [OF ev, of "''2024-01-11''"
        "\<lparr>temps = [nearest (1856 / 100), nearest (2056 / 100)], conditions = [''lluvia'', ''nubes''],
          windSpeeds = [Num 18, Num 36]\<rparr>"]
    by simp
qed

subsection \<open>The days of the forecast\<close>

text \<open>The keys of the map after the loop: the keys it had, then the new date keys in the
  order in which they first appear.\<close>

lemma forEach_add_keys:
  "forEach_add m its = Inr m' \<Longrightarrow>
   \<exists>ks. map (\<lambda>it. dateKey (dt it * 1000)) its = map Inr ks \<and>
        map fst m' = map fst m @ first_appearance (filter (\<lambda>k. k \<notin> set (map fst m)) ks)"
proof (induction its arbitrary: m)
  case Nil
  then show ?case by simp
next
  case (Cons it its)
  from Cons.prems obtain m1 where
    m1: "add_sample m it = Inr m1" "forEach_add m1 its = Inr m'"
    by (auto split: sum.splits)
  from add_sample_keys [OF m1(1)] obtain k where
    k: "dateKey (dt it * 1000) = Inr k"
    and keys1: "map fst m1 = (if k \<in> set (map fst m) then map fst m else map fst m @ [k])"
    by blast
  from Cons.IH [OF m1(2)] obtain ks where
    ks: "map (\<lambda>it. dateKey (dt it * 1000)) its = map Inr ks"
    and keys': "map fst m' =
      map fst m1 @ first_appearance (filter (\<lambda>k. k \<notin> set (map fst m1)) ks)"
    by blast
  have "map (\<lambda>it. dateKey (dt it * 1000)) (it # its) = map Inr (k # ks)"
    using k ks by simp
  moreover have "map fst m' =
      map fst m @ first_appearance (filter (\<lambda>k. k \<notin> set (map fst m)) (k # ks))"
  proof (cases "k \<in> set (map fst m)")
    case True
    then show ?thesis using keys1 keys' by simp
  next
    case False
    have "filter (\<lambda>y. y \<noteq> k) (filter (\<lambda>k. k \<notin> set (map fst m)) ks)
          = filter (\<lambda>ka. ka \<notin> set (map fst m1)) ks"
      using False keys1 by (auto intro: filter_cong)
    then show ?thesis using False keys1 keys' by simp
  qed
  ultimately show ?case by blast
qed

text \<open>The loop throws only on an invalid date.\<close>

lemma forEach_add_total:
  "\<forall>it \<in> set its. validTime (dt it * 1000) \<Longrightarrow> \<exists>m'. forEach_add m its = Inr m'"
proof (induction its arbitrary: m)
  case Nil
  then show ?case by simp
next
  case (Cons it its)
  then have "validTime (dt it * 1000)" by simp
  then obtain m1 where "add_sample m it = Inr m1"
    by (cases "civil_from_days (dt it * 1000 div msPerDay)")
      (simp add: add_sample_def dateKey_def Let_def)
  then show ?case using Cons by auto
qed

lemma set_first_appearance: "set (first_appearance xs) = set xs"
  by (induction xs rule: first_appearance.induct) auto

lemma map_date_dayForecast: "map date (map dayForecast m) = map fst m"
  by (induction m) (auto simp: dayForecast_def)

text \<open>The day of the month lies between 1 and 31.\<close>

lemma doy_range:
  fixes r1 :: int
  shows "0 \<le> r1 mod 1461 - min 3 (r1 mod 1461 div 365) * 365 \<and>
         r1 mod 1461 - min 3 (r1 mod 1461 div 365) * 365 \<le> 365"
proof -
  define r where "r = r1 mod 1461"
  have r: "0 \<le> r" "r < 1461" by (simp_all add: r_def)
  have "0 \<le> r - min 3 (r div 365) * 365 \<and> r - min 3 (r div 365) * 365 \<le> 365"
  proof (cases "r div 365 \<le> 3")
    case True
    have "r - (r div 365) * 365 = r mod 365" by (simp add: minus_div_mult_eq_mod)
    moreover have "0 \<le> r mod 365" "r mod 365 < 365" by simp_all
    ultimately show ?thesis using True by (simp add: min_def)
  next
    case False
    then have "4 \<le> r div 365" by simp
    moreover have "r = 365 * (r div 365) + r mod 365" by simp
    moreover have "0 \<le> r mod 365" by simp
    ultimately have "4 * 365 \<le> r" by linarith
    then show ?thesis using False r by (simp add: min_def)
  qed
  then show ?thesis by (simp add: r_def)
qed

lemma day_of_doy_range:
  fixes doy :: int
  assumes "0 \<le> doy" "doy \<le> 365"
  shows "1 \<le> doy - (153 * ((5 * doy + 2) div 153) + 2) div 5 + 1 \<and>
         doy - (153 * ((5 * doy + 2) div 153) + 2) div 5 + 1 \<le> 31"
proof -
  define mp where "mp = (5 * doy + 2) div 153"
  have e: "5 * doy + 2 = 153 * mp + (5 * doy + 2) mod 153" by (simp add: mp_def)
  have m: "0 \<le> (5 * doy + 2) mod 153" "(5 * doy + 2) mod 153 < 153" by simp_all
  have mp: "0 \<le> mp" "mp \<le> 11" using e m assms by linarith+
  define t where "t = (153 * mp + 2) div 5"
  have e2: "153 * mp + 2 = 5 * t + (153 * mp + 2) mod 5" by (simp add: t_def)
  have m2: "0 \<le> (153 * mp + 2) mod 5" "(153 * mp + 2) mod 5 < 5" by simp_all
  have "1 \<le> doy - t + 1 \<and> doy - t + 1 \<le> 31" using e m e2 m2 mp by linarith
  then show ?thesis by (simp add: t_def mp_def)
qed

lemma civil_day_range:
  "1 \<le> snd (snd (civil_from_days z)) \<and> snd (snd (civil_from_days z)) \<le> 31"
proof -
  define r1 where
    "r1 = (z + 719468) mod 146097 - min 3 ((z + 719468) mod 146097 div 36524) * 36524"
  define doy where "doy = r1 mod 1461 - min 3 (r1 mod 1461 div 365) * 365"
  have d: "snd (snd (civil_from_days z)) = doy - (153 * ((5 * doy + 2) div 153) + 2) div 5 + 1"
    unfolding civil_from_days_def Let_def doy_def r1_def by (simp only: snd_conv)
  have "0 \<le> doy \<and> doy \<le> 365" unfolding doy_def by (rule doy_range)
  then show ?thesis unfolding d using day_of_doy_range by blast
qed

text \<open>Two dates with the same key have the same day of the month.\<close>

lemma digit_inj: "a < 10 \<Longrightarrow> b < 10 \<Longrightarrow> digit a = digit b \<Longrightarrow> a = b"
proof -
  assume a: "a < 10" and b: "b < 10" and e: "digit a = digit b"
  have A: "a \<in> {0, 1, 2, 3, 4, 5, 6, 7, 8, 9}" using a by auto
  have B: "b \<in> {0, 1, 2, 3, 4, 5, 6, 7, 8, 9}" using b by auto
  show ?thesis using A B e by (auto simp: digit_def)
qed

lemma pad2_inj:
  assumes "0 \<le> a" "a \<le> 99" "0 \<le> b" "b \<le> 99" "pad2 a = pad2 b"
  shows "a = b"
proof -
  have d1: "digit (nat (a div 10)) = digit (nat (b div 10))"
    and d2: "digit (nat a) = digit (nat b)"
    using assms(5) by (simp_all add: pad2_def)
  have "nat (a div 10) < 10" "nat (b div 10) < 10" using assms by auto
  then have q: "nat (a div 10) = nat (b div 10)" using d1 digit_inj by blast
  have "digit (nat a) = digit (nat a mod 10)" "digit (nat b) = digit (nat b mod 10)"
    by (simp_all add: digit_def)
  then have "digit (nat a mod 10) = digit (nat b mod 10)" using d2 by simp
  then have r: "nat a mod 10 = nat b mod 10"
    using digit_inj [of "nat a mod 10" "nat b mod 10"] by simp
  have "nat a div 10 = nat b div 10" using q assms by (simp add: nat_div_distrib)
  then have "nat a = nat b" using r by (metis div_mult_mod_eq)
  then show ?thesis using assms by simp
qed

lemma dateKey_day:
  assumes "dateKey t = Inr k"
  shows "validTime t \<and>
         take 2 (rev k) = rev (pad2 (snd (snd (civil_from_days (t div msPerDay)))))"
  using assms
  by (cases "civil_from_days (t div msPerDay)")
    (auto simp: dateKey_def pad2_def split: if_splits)

lemma same_key_same_day:
  assumes "dateKey a = Inr k" "dateKey b = Inr k"
  shows "getDate utc a = getDate utc b"
proof -
  let ?da = "snd (snd (civil_from_days (a div msPerDay)))"
  let ?db = "snd (snd (civil_from_days (b div msPerDay)))"
  from dateKey_day [OF assms(1)] dateKey_day [OF assms(2)]
  have v: "validTime a" "validTime b" and "rev (pad2 ?da) = rev (pad2 ?db)" by simp_all
  then have "pad2 ?da = pad2 ?db" by simp
  moreover have "0 \<le> ?da" "?da \<le> 99" "0 \<le> ?db" "?db \<le> 99"
    using civil_day_range [of "a div msPerDay"] civil_day_range [of "b div msPerDay"]
    by linarith+
  ultimately have "?da = ?db" by (rule pad2_inj [rotated 4])
  then show ?thesis using v by (simp add: getDate_def utc_def)
qed

text \<open>In UTC a sample that passes the filter does not carry the key of the current day.\<close>

lemma kept_not_today:
  assumes "keep_item utc now it" and "dateKey (dt it * 1000) = Inr k"
  shows "dateKey now \<noteq> Inr k"
proof
  assume today: "dateKey now = Inr k"
  have "getDate utc (dt it * 1000) = getDate utc now"
    using same_key_same_day [OF assms(2) today] .
  moreover have "validTime now" using dateKey_day [OF today] by simp
  then have "getDate utc now \<noteq> None" by (simp add: getDate_def)
  ultimately show False using assms(1) by (simp add: keep_item_def strict_neq_def)
qed

text \<open>
  What the aggregation does in every time zone, and what it does where local time is
  UTC: the forecast is computed whenever every sample carries a valid time; it has at
  most 5 entries, and their dates are the first five date keys of the samples that
  pass the filter, in the order of first appearance; where the local time of the
  runtime is UTC, no entry is dated the current calendar date.
\<close>

lemma forecast_days:
  "((\<forall>it \<in> set series. validTime (dt it * 1000)) \<longrightarrow>
      (\<exists>fc. forecast_of zone now series = Inr fc)) \<and>
   (\<forall>fc. forecast_of zone now series = Inr fc \<longrightarrow>
      length fc \<le> 5 \<and>
      (\<exists>ks. map (\<lambda>it. dateKey (dt it * 1000)) (filter (keep_item zone now) series) = map Inr ks \<and>
            map date fc = take 5 (first_appearance ks)) \<and>
      (zone = utc \<longrightarrow> (\<forall>e \<in> set fc. dateKey now \<noteq> Inr (date e))))"
proof (intro conjI allI impI)
  assume "\<forall>it \<in> set series. validTime (dt it * 1000)"
  then have "\<forall>it \<in> set (filter (keep_item zone now) series). validTime (dt it * 1000)"
    by simp
  from forEach_add_total [OF this, of "[]"]
  show "\<exists>fc. forecast_of zone now series = Inr fc"
    by (auto simp: forecast_of_def dailyForecasts_def)
next
  fix fc
  assume fc: "forecast_of zone now series = Inr fc"
  then obtain m where m: "forEach_add [] (filter (keep_item zone now) series) = Inr m"
    and fcm: "fc = map dayForecast (take 5 m)"
    by (auto simp: forecast_of_def dailyForecasts_def split: sum.splits)
  show "length fc \<le> 5" by (simp add: fcm)
  from forEach_add_keys [OF m] obtain ks where
    ks: "map (\<lambda>it. dateKey (dt it * 1000)) (filter (keep_item zone now) series) = map Inr ks"
    and keys: "map fst m = first_appearance ks"
    by auto
  have "map date fc = map fst (take 5 m)"
    unfolding fcm by (rule map_date_dayForecast)
  also have "\<dots> = take 5 (map fst m)" by (rule take_map [symmetric])
  finally have dates: "map date fc = take 5 (first_appearance ks)"
    unfolding keys .
  show "\<exists>ks. map (\<lambda>it. dateKey (dt it * 1000)) (filter (keep_item zone now) series) = map Inr ks \<and>
            map date fc = take 5 (first_appearance ks)"
    using ks dates by blast
  show "\<forall>e \<in> set fc. dateKey now \<noteq> Inr (date e)" if z: "zone = utc"
  proof
    fix e
    assume e: "e \<in> set fc"
    have "date e \<in> set (map date fc)" using e by simp
    then have "date e \<in> set (first_appearance ks)"
      unfolding dates by (rule in_set_takeD)
    then have "Inr (date e) \<in> set (map Inr ks :: (string + string) list)"
      by (simp add: set_first_appearance)
    then obtain it where it: "it \<in> set (filter (keep_item zone now) series)"
      and k: "dateKey (dt it * 1000) = Inr (date e)"
      unfolding ks [symmetric] by auto
    have "keep_item utc now it" using it z by simp
    from kept_not_today [OF this k] show "dateKey now \<noteq> Inr (date e)" .
  qed
qed

text \<open>
  C1: the output has at most 5 entries, in the order of first appearance
  (\<open>forecast_days\<close>), but it can hold an entry for the current calendar date: the
  filter that is meant to drop the rest of today compares days of the month in the
  local time of the runtime (\<^verbatim>\<open>getDate\<close>), while the date key of an entry is the UTC
  date (\<^verbatim>\<open>toISOString\<close>). Nine hours ahead of UTC, at 2024-01-10T01:00Z (10:00
  local time), the sample of 2024-01-10T15:00Z (midnight of the 11th, local time)
  passes the filter and gives an entry dated 2024-01-10, the current date in UTC and
  in local time.
\<close>

theorem C1_entry_dated_today:
  "forecast_of utc_plus_9 1704848400000
     [\<lparr>dt = 1704898800, temp = 20, description = ''nubes'', speed = 10\<rparr>]
   = Inr [\<lparr>date = ''2024-01-10'', temperature_max = Num 20, temperature_min = Num 20,
           temperature_avg = Num 20, day_conditions = Some ''nubes'',
           day_wind_speed = Num 36\<rparr>] \<and>
   getDate utc_plus_9 (1704898800 * 1000) = Some 11 \<and>
   getDate utc_plus_9 1704848400000 = Some 10 \<and>
   dateKey 1704848400000 = Inr ''2024-01-10'' \<and>
   dateKey (1704848400000 + utc_plus_9 1704848400000) = Inr ''2024-01-10''"
  by code_simp

subsection \<open>The cache read\<close>

lemma newest_max:
  "xs \<noteq> [] \<Longrightarrow>
   \<exists>r. newest stamp xs = Some r \<and> r \<in> set xs \<and> (\<forall>x \<in> set xs. stamp x \<le> stamp r)"
proof (induction xs)
  case Nil
  then show ?case by simp
next
  case (Cons a xs)
  show ?case
  proof (cases "xs = []")
    case True
    then show ?thesis by simp
  next
    case False
    from Cons.IH [OF False] obtain r where
      r: "newest stamp xs = Some r" "r \<in> set xs" "\<forall>x \<in> set xs. stamp x \<le> stamp r"
      by blast
    show ?thesis using r by (cases "stamp a < stamp r") (auto simp: r(1))
  qed
qed

text \<open>A fresh row and no read error: the read yields the newest fresh row of the location.\<close>

lemma select_latest_hit:
  assumes "select_error w = None" "r \<in> set (rows w)" "loc r = l" "cutoff \<le> stamp r"
  shows "\<exists>r'. select_latest loc stamp w l cutoff = (Some r', None) \<and> r' \<in> set (rows w) \<and>
              loc r' = l \<and> cutoff \<le> stamp r' \<and> stamp r \<le> stamp r'"
proof -
  let ?fresh = "filter (\<lambda>r. loc r = l \<and> cutoff \<le> stamp r) (rows w)"
  have "r \<in> set ?fresh" using assms by simp
  then have "?fresh \<noteq> []" by (metis empty_iff list.set(1))
  from newest_max [OF this, of stamp] obtain r' where
    r': "newest stamp ?fresh = Some r'" "r' \<in> set ?fresh"
      "\<forall>x \<in> set ?fresh. stamp x \<le> stamp r'"
    by blast
  have "stamp r \<le> stamp r'" using r'(3) \<open>r \<in> set ?fresh\<close> by blast
  then show ?thesis using r' assms(1) by (auto simp: select_latest_def)
qed

text \<open>A read error, or no fresh row of the location: the read yields no data.\<close>

lemma select_latest_miss:
  assumes "select_error w \<noteq> None \<or>
           (\<forall>r \<in> set (rows w). \<not> (loc r = l \<and> cutoff \<le> stamp r))"
  shows "select_latest loc stamp w l cutoff = (None, select_error w)"
proof (cases "select_error w")
  case None
  then have "filter (\<lambda>r. loc r = l \<and> cutoff \<le> stamp r) (rows w) = []"
    using assms by (auto simp: filter_empty_conv)
  then show ?thesis using None by (simp add: select_latest_def)
next
  case (Some e)
  then show ?thesis by (simp add: select_latest_def)
qed

lemma forecast_hit:
  assumes "http_method req \<noteq> ''OPTIONS''" "select_error w = None" "r \<in> set (rows w)"
    "row_location r = location_of req" "now_lookup w - 6 * 60 * 60 * 1000 \<le> row_fetched_at r"
  shows "\<exists>r'. r' \<in> set (rows w) \<and> row_location r' = location_of req \<and>
           now_lookup w - 6 * 60 * 60 * 1000 \<le> row_fetched_at r' \<and>
           row_fetched_at r \<le> row_fetched_at r' \<and>
           forecast_handler req w =
             \<lparr>response = \<lparr>status = 200, headers = jsonHeaders,
                           body = Success (forecast_data r') ''cache''
                                    ''Data from cache (less than 6 hours old)''\<rparr>,
              trace = [CacheSelect (location_of req) (now_lookup w - 6 * 60 * 60 * 1000)],
              rows_after = rows w\<rparr>"
proof -
  from select_latest_hit [of w r row_location "location_of req"
      "now_lookup w - 6 * 60 * 60 * 1000" row_fetched_at, OF assms(2-5)]
  obtain r' where r':
    "select_latest row_location row_fetched_at w (location_of req)
       (now_lookup w - 6 * 60 * 60 * 1000) = (Some r', None)"
    "r' \<in> set (rows w)" "row_location r' = location_of req"
    "now_lookup w - 6 * 60 * 60 * 1000 \<le> row_fetched_at r'"
    "row_fetched_at r \<le> row_fetched_at r'"
    by blast
  have "forecast_handler req w =
          \<lparr>response = \<lparr>status = 200, headers = jsonHeaders,
                        body = Success (forecast_data r') ''cache''
                                 ''Data from cache (less than 6 hours old)''\<rparr>,
           trace = [CacheSelect (location_of req) (now_lookup w - 6 * 60 * 60 * 1000)],
           rows_after = rows w\<rparr>"
    using assms(1) r'(1) unfolding forecast_handler_def Let_def success_def by simp
  then show ?thesis using r'(2-5) by blast
qed

lemma weather_hit:
  assumes "http_method req \<noteq> ''OPTIONS''" "select_error w = None" "r \<in> set (rows w)"
    "location r = location_of req" "now_lookup w - 30 * 60 * 1000 \<le> fetched_at r"
  shows "\<exists>r'. r' \<in> set (rows w) \<and> location r' = location_of req \<and>
           now_lookup w - 30 * 60 * 1000 \<le> fetched_at r' \<and>
           fetched_at r \<le> fetched_at r' \<and>
           weather_handler req w =
             \<lparr>response = \<lparr>status = 200, headers = jsonHeaders,
                           body = Success r' ''cache''
                                    ''Data from cache (less than 30 minutes old)''\<rparr>,
              trace = [CacheSelect (location_of req) (now_lookup w - 30 * 60 * 1000)],
              rows_after = rows w\<rparr>"
proof -
  from select_latest_hit [of w r location "location_of req"
      "now_lookup w - 30 * 60 * 1000" fetched_at, OF assms(2-5)]
  obtain r' where r':
    "select_latest location fetched_at w (location_of req)
       (now_lookup w - 30 * 60 * 1000) = (Some r', None)"
    "r' \<in> set (rows w)" "location r' = location_of req"
    "now_lookup w - 30 * 60 * 1000 \<le> fetched_at r'"
    "fetched_at r \<le> fetched_at r'"
    by blast
  have "weather_handler req w =
          \<lparr>response = \<lparr>status = 200, headers = jsonHeaders,
                        body = Success r' ''cache''
                                 ''Data from cache (less than 30 minutes old)''\<rparr>,
           trace = [CacheSelect (location_of req) (now_lookup w - 30 * 60 * 1000)],
           rows_after = rows w\<rparr>"
    using assms(1) r'(1) unfolding weather_handler_def Let_def success_def by simp
  then show ?thesis using r'(2-5) by blast
qed

text \<open>
  C3: a row of the location within the freshness window (6 hours for the forecast,
  30 minutes for the current weather) and a cache read without error: the handler
  answers 200 with source \<open>cache\<close> and the payload of a fresh row of that location,
  the newest one (so the payload of that very row when no other fresh row is newer);
  the cache read is all it does: no upstream call, no cache write.
\<close>

theorem C3_fresh_row_served_from_cache:
  "(http_method req \<noteq> ''OPTIONS'' \<and> select_error w1 = None \<and> r1 \<in> set (rows w1) \<and>
    row_location r1 = location_of req \<and>
    now_lookup w1 - 6 * 60 * 60 * 1000 \<le> row_fetched_at r1 \<longrightarrow>
      (\<exists>r'. r' \<in> set (rows w1) \<and> row_location r' = location_of req \<and>
            now_lookup w1 - 6 * 60 * 60 * 1000 \<le> row_fetched_at r' \<and>
            row_fetched_at r1 \<le> row_fetched_at r' \<and>
            forecast_handler req w1 =
              \<lparr>response = \<lparr>status = 200, headers = jsonHeaders,
                            body = Success (forecast_data r') ''cache''
                                     ''Data from cache (less than 6 hours old)''\<rparr>,
               trace = [CacheSelect (location_of req) (now_lookup w1 - 6 * 60 * 60 * 1000)],
               rows_after = rows w1\<rparr>)) \<and>
   (http_method req \<noteq> ''OPTIONS'' \<and> select_error w2 = None \<and> r2 \<in> set (rows w2) \<and>
    location r2 = location_of req \<and>
    now_lookup w2 - 30 * 60 * 1000 \<le> fetched_at r2 \<longrightarrow>
      (\<exists>r'. r' \<in> set (rows w2) \<and> location r' = location_of req \<and>
            now_lookup w2 - 30 * 60 * 1000 \<le> fetched_at r' \<and>
            fetched_at r2 \<le> fetched_at r' \<and>
            weather_handler req w2 =
              \<lparr>response = \<lparr>status = 200, headers = jsonHeaders,
                            body = Success r' ''cache''
                                     ''Data from cache (less than 30 minutes old)''\<rparr>,
               trace = [CacheSelect (location_of req) (now_lookup w2 - 30 * 60 * 1000)],
               rows_after = rows w2\<rparr>))"
  using forecast_hit [of req w1 r1] weather_hit [of req w2 r2] by blast

theorem C3_fresh_row_served_from_cache_witness:
  "forecast_handler sample_request sample_forecast_world =
     \<lparr>response = \<lparr>status = 200, headers = jsonHeaders,
                   body = Success (forecast_data sample_forecast_row) ''cache''
                            ''Data from cache (less than 6 hours old)''\<rparr>,
      trace = [CacheSelect ''Valparaiso'' 1704826800000],
      rows_after = [sample_forecast_row]\<rparr> \<and>
   weather_handler sample_request sample_weather_world =
     \<lparr>response = \<lparr>status = 200, headers = jsonHeaders,
                   body = Success sample_snapshot ''cache''
                            ''Data from cache (less than 30 minutes old)''\<rparr>,
      trace = [CacheSelect ''Valparaiso'' 1704846600000],
      rows_after = [sample_snapshot]\<rparr>"
  using C3_fresh_row_served_from_cache
    [of sample_request sample_forecast_world sample_forecast_row
        sample_weather_world sample_snapshot]
  by (simp add: sample_request_def sample_forecast_world_def sample_weather_world_def
      sample_forecast_row_def sample_snapshot_def location_of_def)

subsection \<open>The mock snapshot\<close>

lemma floor_times_range:
  fixes r :: rat
  assumes "0 \<le> r" "r < 1" "0 < n"
  shows "0 \<le> \<lfloor>r * of_int n\<rfloor> \<and> \<lfloor>r * of_int n\<rfloor> < n"
proof -
  have "0 \<le> r * of_int n" using assms by simp
  then have lo: "0 \<le> \<lfloor>r * of_int n\<rfloor>" by simp
  have "r * of_int n < 1 * of_int n" using assms by (simp only: mult_strict_right_mono of_int_0_less_iff)
  then have "r * of_int n < of_int n" by simp
  then have "\<lfloor>r * of_int n\<rfloor> < n" by (simp add: floor_less_iff)
  then show ?thesis using lo by simp
qed

lemma js_index_member:
  "0 \<le> i \<Longrightarrow> i < int (length xs) \<Longrightarrow> \<exists>x. js_index xs i = Some x \<and> x \<in> set xs"
  by (simp add: js_index_def)

lemma weather_miss_mock:
  assumes "http_method req \<noteq> ''OPTIONS''"
    and "select_error w \<noteq> None \<or>
         (\<forall>r \<in> set (rows w). \<not> (location r = location_of req \<and>
                                  now_lookup w - 30 * 60 * 1000 \<le> fetched_at r))"
    and "\<not> key_set (api_key w)"
  shows "weather_handler req w =
           \<lparr>response = \<lparr>status = 200, headers = jsonHeaders,
                         body = Success (mockData (location_of req) w) ''mock''
                           ''Mock data - Add OPENWEATHER_API_KEY secret for real weather data''\<rparr>,
            trace = [CacheSelect (location_of req) (now_lookup w - 30 * 60 * 1000),
                     CacheInsert (mockData (location_of req) w)],
            rows_after = (if insert_error w = None then rows w @ [mockData (location_of req) w]
                          else rows w)\<rparr>"
proof -
  have sel: "select_latest location fetched_at w (location_of req)
               (now_lookup w - 30 * 60 * 1000) = (None, select_error w)"
    by (rule select_latest_miss) (use assms(2) in simp)
  show ?thesis
    using assms(1,3) sel unfolding weather_handler_def Let_def success_def insert_row_def
    by (cases "insert_error w") simp_all
qed

text \<open>
  C5: no fresh row of the location (or a failed cache read) and no provider key: the
  current-weather handler answers 200 with source \<open>mock\<close>; the payload has a
  temperature in [18, 28], a humidity in [50, 80], a wind speed in [5, 20], one of the
  8 cardinal points and one of the 4 descriptions; the handler issues the insert of
  this payload after the cache read, calls no upstream, and the row is in the store
  afterwards unless the store refuses the insert.
\<close>

theorem C5_mock_snapshot:
  assumes "http_method req \<noteq> ''OPTIONS''"
    and "select_error w \<noteq> None \<or>
         (\<forall>r \<in> set (rows w). \<not> (location r = location_of req \<and>
                                  now_lookup w - 30 * 60 * 1000 \<le> fetched_at r))"
    and "\<not> key_set (api_key w)"
    and "\<forall>i. 0 \<le> random w i \<and> random w i < 1"
  shows "\<exists>t h s d c.
           mockData (location_of req) w =
             \<lparr>location = location_of req, temperature = Some t, humidity = Some h,
              wind_speed = Some s, wind_direction = Some d, weather_description = Some c,
              fetched_at = now_payload w\<rparr> \<and>
           18 \<le> t \<and> t \<le> 28 \<and> 50 \<le> h \<and> h \<le> 80 \<and> 5 \<le> s \<and> s \<le> 20 \<and>
           d \<in> set directions \<and> c \<in> set descriptions \<and>
           weather_handler req w =
             \<lparr>response = \<lparr>status = 200, headers = jsonHeaders,
                           body = Success (mockData (location_of req) w) ''mock''
                             ''Mock data - Add OPENWEATHER_API_KEY secret for real weather data''\<rparr>,
              trace = [CacheSelect (location_of req) (now_lookup w - 30 * 60 * 1000),
                       CacheInsert (mockData (location_of req) w)],
              rows_after = (if insert_error w = None
                            then rows w @ [mockData (location_of req) w] else rows w)\<rparr>"
proof -
  have r: "0 \<le> random w i" "random w i < 1" for i using assms(4) by simp_all
  have "0 \<le> \<lfloor>random w 3 * of_int 8\<rfloor> \<and> \<lfloor>random w 3 * of_int 8\<rfloor> < 8"
    by (rule floor_times_range) (simp_all add: r)
  then obtain d where d: "js_index directions \<lfloor>random w 3 * 8\<rfloor> = Some d" "d \<in> set directions"
    using js_index_member [of "\<lfloor>random w 3 * 8\<rfloor>" directions] by (auto simp: directions_def)
  have "0 \<le> \<lfloor>random w 4 * of_int 4\<rfloor> \<and> \<lfloor>random w 4 * of_int 4\<rfloor> < 4"
    by (rule floor_times_range) (simp_all add: r)
  then obtain c where c: "js_index descriptions \<lfloor>random w 4 * 4\<rfloor> = Some c" "c \<in> set descriptions"
    using js_index_member [of "\<lfloor>random w 4 * 4\<rfloor>" descriptions] by (auto simp: descriptions_def)
  have t0: "0 \<le> nearest (random w 0 * 10) \<and> nearest (random w 0 * 10) \<le> 10"
    using r [of 0] by (intro nearest_between) (simp_all add: nearest_fixed)
  have t: "18 \<le> nearest (18 + nearest (random w 0 * 10)) \<and>
           nearest (18 + nearest (random w 0 * 10)) \<le> 28"
    using t0 by (intro nearest_between) (simp_all add: nearest_fixed)
  have h0: "0 \<le> nearest (random w 1 * 30) \<and> nearest (random w 1 * 30) \<le> 30"
    using r [of 1] by (intro nearest_between) (simp_all add: nearest_fixed)
  have h: "50 \<le> nearest (50 + nearest (random w 1 * 30)) \<and>
           nearest (50 + nearest (random w 1 * 30)) \<le> 80"
    using h0 by (intro nearest_between) (simp_all add: nearest_fixed)
  have s0: "0 \<le> nearest (random w 2 * 15) \<and> nearest (random w 2 * 15) \<le> 15"
    using r [of 2] by (intro nearest_between) (simp_all add: nearest_fixed)
  have s: "5 \<le> nearest (5 + nearest (random w 2 * 15)) \<and>
           nearest (5 + nearest (random w 2 * 15)) \<le> 20"
    using s0 by (intro nearest_between) (simp_all add: nearest_fixed)
  have m: "mockData (location_of req) w =
             \<lparr>location = location_of req,
              temperature = Some (nearest (18 + nearest (random w 0 * 10))),
              humidity = Some (nearest (50 + nearest (random w 1 * 30))),
              wind_speed = Some (nearest (5 + nearest (random w 2 * 15))),
              wind_direction = Some d, weather_description = Some c,
              fetched_at = now_payload w\<rparr>"
    by (simp add: mockData_def d(1) c(1))
  show ?thesis
    using m t h s d(2) c(2) weather_miss_mock [OF assms(1-3)] by blast
qed

theorem C5_mock_snapshot_witness:
  "weather_handler sample_request (sample_weather_world\<lparr>rows := [], api_key := None\<rparr>) =
     \<lparr>response = \<lparr>status = 200, headers = jsonHeaders,
                   body = Success
                     \<lparr>location = ''Valparaiso'', temperature = Some 23, humidity = Some 65,
                      wind_speed = Some (25 / 2), wind_direction = Some ''S'',
                      weather_description = Some ''Nublado'', fetched_at = 1704848400100\<rparr>
                     ''mock''
                     ''Mock data - Add OPENWEATHER_API_KEY secret for real weather data''\<rparr>,
      trace = [CacheSelect ''Valparaiso'' 1704846600000,
               CacheInsert
                 \<lparr>location = ''Valparaiso'', temperature = Some 23, humidity = Some 65,
                  wind_speed = Some (25 / 2), wind_direction = Some ''S'',
                  weather_description = Some ''Nublado'', fetched_at = 1704848400100\<rparr>],
      rows_after =
        [\<lparr>location = ''Valparaiso'', temperature = Some 23, humidity = Some 65,
          wind_speed = Some (25 / 2), wind_direction = Some ''S'',
          weather_description = Some ''Nublado'', fetched_at = 1704848400100\<rparr>]\<rparr>"
proof -
  have m: "mockData ''Valparaiso'' (sample_weather_world\<lparr>rows := [], api_key := None\<rparr>) =
             \<lparr>location = ''Valparaiso'', temperature = Some 23, humidity = Some 65,
              wind_speed = Some (25 / 2), wind_direction = Some ''S'',
              weather_description = Some ''Nublado'', fetched_at = 1704848400100\<rparr>"
    unfolding sample_weather_world_def by code_simp
  have h1: "http_method sample_request \<noteq> ''OPTIONS''"
    by (simp add: sample_request_def)
  have h2: "select_error (sample_weather_world\<lparr>rows := [], api_key := None\<rparr>) \<noteq> None \<or>
      (\<forall>r \<in> set (rows (sample_weather_world\<lparr>rows := [], api_key := None\<rparr>)).
          \<not> (location r = location_of sample_request \<and>
             now_lookup (sample_weather_world\<lparr>rows := [], api_key := None\<rparr>) - 30 * 60 * 1000
               \<le> fetched_at r))"
    by simp
  have h3: "\<not> key_set (api_key (sample_weather_world\<lparr>rows := [], api_key := None\<rparr>))"
    by (simp add: key_set_def)
  have h4: "\<forall>i. 0 \<le> random (sample_weather_world\<lparr>rows := [], api_key := None\<rparr>) i \<and>
                random (sample_weather_world\<lparr>rows := [], api_key := None\<rparr>) i < 1"
    by (simp add: sample_weather_world_def)
  have l: "location_of sample_request = ''Valparaiso''"
    by (simp add: sample_request_def location_of_def)
  from C5_mock_snapshot [OF h1 h2 h3 h4]
  have "weather_handler sample_request (sample_weather_world\<lparr>rows := [], api_key := None\<rparr>) =
     \<lparr>response = \<lparr>status = 200, headers = jsonHeaders,
         body = Success (mockData (location_of sample_request)
                           (sample_weather_world\<lparr>rows := [], api_key := None\<rparr>)) ''mock''
                  ''Mock data - Add OPENWEATHER_API_KEY secret for real weather data''\<rparr>,
      trace = [CacheSelect (location_of sample_request)
                 (now_lookup (sample_weather_world\<lparr>rows := [], api_key := None\<rparr>) - 30 * 60 * 1000),
               CacheInsert (mockData (location_of sample_request)
                              (sample_weather_world\<lparr>rows := [], api_key := None\<rparr>))],
      rows_after =
        (if insert_error (sample_weather_world\<lparr>rows := [], api_key := None\<rparr>) = None
         then rows (sample_weather_world\<lparr>rows := [], api_key := None\<rparr>) @
              [mockData (location_of sample_request)
                 (sample_weather_world\<lparr>rows := [], api_key := None\<rparr>)]
         else rows (sample_weather_world\<lparr>rows := [], api_key := None\<rparr>))\<rparr>"
    by blast
  then show ?thesis
    unfolding l m by (simp add: sample_weather_world_def)
qed

subsection \<open>Upstream failure and cache write failure\<close>

lemma forecast_upstream_error:
  assumes "http_method req \<noteq> ''OPTIONS''"
    and "select_error w \<noteq> None \<or>
         (\<forall>r \<in> set (rows w). \<not> (row_location r = location_of req \<and>
                                  now_lookup w - 6 * 60 * 60 * 1000 \<le> row_fetched_at r))"
    and "key_set (api_key w)" and "upstream w = HttpResponse st js" and "\<not> response_ok st"
  shows "forecast_handler req w =
           \<lparr>response = \<lparr>status = 500, headers = jsonHeaders,
                         body = Failure (''Weather API error: '' @ string_of_nat st)
                                  ''Failed to fetch weather data''\<rparr>,
            trace = [CacheSelect (location_of req) (now_lookup w - 6 * 60 * 60 * 1000),
                     UpstreamGet ''forecast'' (location_of req)],
            rows_after = rows w\<rparr>"
proof -
  have sel: "select_latest row_location row_fetched_at w (location_of req)
               (now_lookup w - 6 * 60 * 60 * 1000) = (None, select_error w)"
    by (rule select_latest_miss) (use assms(2) in simp)
  show ?thesis
    using assms(1,3,4,5) sel unfolding forecast_handler_def Let_def failure_def by simp
qed

lemma weather_upstream_error:
  assumes "http_method req \<noteq> ''OPTIONS''"
    and "select_error w \<noteq> None \<or>
         (\<forall>r \<in> set (rows w). \<not> (location r = location_of req \<and>
                                  now_lookup w - 30 * 60 * 1000 \<le> fetched_at r))"
    and "key_set (api_key w)" and "upstream w = HttpResponse st js" and "\<not> response_ok st"
  shows "weather_handler req w =
           \<lparr>response = \<lparr>status = 500, headers = jsonHeaders,
                         body = Failure (''Weather API error: '' @ string_of_nat st)
                                  ''Failed to fetch weather data''\<rparr>,
            trace = [CacheSelect (location_of req) (now_lookup w - 30 * 60 * 1000),
                     UpstreamGet ''weather'' (location_of req)],
            rows_after = rows w\<rparr>"
proof -
  have sel: "select_latest location fetched_at w (location_of req)
               (now_lookup w - 30 * 60 * 1000) = (None, select_error w)"
    by (rule select_latest_miss) (use assms(2) in simp)
  show ?thesis
    using assms(1,3,4,5) sel unfolding weather_handler_def Let_def failure_def by simp
qed

text \<open>
  C6: no fresh row of the location (or a failed cache read), a provider key, and an
  upstream answer whose status is not a success: the handler answers 500; the
  \<open>error\<close> of the body is \<open>Weather API error: \<close> followed by the status in decimal,
  its \<open>details\<close> the fixed string \<open>Failed to fetch weather data\<close>; nothing is
  written to the cache.
\<close>

theorem C6_upstream_status_gives_500:
  "(http_method req \<noteq> ''OPTIONS'' \<and>
    (select_error w1 \<noteq> None \<or>
       (\<forall>r \<in> set (rows w1). \<not> (row_location r = location_of req \<and>
                                 now_lookup w1 - 6 * 60 * 60 * 1000 \<le> row_fetched_at r))) \<and>
    key_set (api_key w1) \<and> upstream w1 = HttpResponse st1 js1 \<and> \<not> response_ok st1 \<longrightarrow>
      forecast_handler req w1 =
        \<lparr>response = \<lparr>status = 500, headers = jsonHeaders,
                      body = Failure (''Weather API error: '' @ string_of_nat st1)
                               ''Failed to fetch weather data''\<rparr>,
         trace = [CacheSelect (location_of req) (now_lookup w1 - 6 * 60 * 60 * 1000),
                  UpstreamGet ''forecast'' (location_of req)],
         rows_after = rows w1\<rparr>) \<and>
   (http_method req \<noteq> ''OPTIONS'' \<and>
    (select_error w2 \<noteq> None \<or>
       (\<forall>r \<in> set (rows w2). \<not> (location r = location_of req \<and>
                                 now_lookup w2 - 30 * 60 * 1000 \<le> fetched_at r))) \<and>
    key_set (api_key w2) \<and> upstream w2 = HttpResponse st2 js2 \<and> \<not> response_ok st2 \<longrightarrow>
      weather_handler req w2 =
        \<lparr>response = \<lparr>status = 500, headers = jsonHeaders,
                      body = Failure (''Weather API error: '' @ string_of_nat st2)
                               ''Failed to fetch weather data''\<rparr>,
         trace = [CacheSelect (location_of req) (now_lookup w2 - 30 * 60 * 1000),
                  UpstreamGet ''weather'' (location_of req)],
         rows_after = rows w2\<rparr>)"
  using forecast_upstream_error [of req w1 st1 js1] weather_upstream_error [of req w2 st2 js2]
  by blast

theorem C6_upstream_status_gives_500_witness:
  "forecast_handler sample_request (sample_forecast_world\<lparr>rows := []\<rparr>) =
     \<lparr>response = \<lparr>status = 500, headers = jsonHeaders,
                   body = Failure ''Weather API error: 404'' ''Failed to fetch weather data''\<rparr>,
      trace = [CacheSelect ''Valparaiso'' 1704826800000,
               UpstreamGet ''forecast'' ''Valparaiso''],
      rows_after = []\<rparr> \<and>
   weather_handler sample_request (sample_weather_world\<lparr>rows := []\<rparr>) =
     \<lparr>response = \<lparr>status = 500, headers = jsonHeaders,
                   body = Failure ''Weather API error: 404'' ''Failed to fetch weather data''\<rparr>,
      trace = [CacheSelect ''Valparaiso'' 1704846600000,
               UpstreamGet ''weather'' ''Valparaiso''],
      rows_after = []\<rparr>"
  using C6_upstream_status_gives_500
    [of sample_request "sample_forecast_world\<lparr>rows := []\<rparr>" 404 "Inl ''Unexpected token''"
        "sample_weather_world\<lparr>rows := []\<rparr>" 404 "Inl ''Unexpected token''"]
  by (simp add: sample_request_def sample_forecast_world_def sample_weather_world_def
      location_of_def key_set_def response_ok_def digit_def)

text \<open>The response of a handler does not depend on whether the store accepts the insert.\<close>

lemma select_latest_insert_error [simp]:
  "select_latest loc stamp (w\<lparr>insert_error := e\<rparr>) l cutoff = select_latest loc stamp w l cutoff"
  by (simp add: select_latest_def split: option.splits)

lemma forecast_response_insert_error:
  "response (forecast_handler req (w\<lparr>insert_error := e\<rparr>)) = response (forecast_handler req w)"
  unfolding forecast_handler_def Let_def insert_row_def
  by (simp split: prod.splits option.splits fetch_result.splits sum.splits)

lemma weather_response_insert_error:
  "response (weather_handler req (w\<lparr>insert_error := e\<rparr>)) = response (weather_handler req w)"
  unfolding weather_handler_def Let_def insert_row_def mockData_def
  by (simp split: prod.splits option.splits fetch_result.splits sum.splits)

lemma forecast_insert_fails:
  assumes "http_method req \<noteq> ''OPTIONS''"
    and "select_error w \<noteq> None \<or>
         (\<forall>r \<in> set (rows w). \<not> (row_location r = location_of req \<and>
                                  now_lookup w - 6 * 60 * 60 * 1000 \<le> row_fetched_at r))"
    and "key_set (api_key w)" and "upstream w = HttpResponse st (Inr series)"
    and "response_ok st" and "forecast_of (tz w) (now_process w) series = Inr fc"
    and "insert_error w = Some e"
  shows "forecast_handler req w =
           \<lparr>response = \<lparr>status = 200, headers = jsonHeaders,
                         body = Success \<lparr>fc_location = location_of req, forecast = fc,
                                         fc_fetched_at = now_payload w\<rparr>
                                  ''api'' ''Fresh 5-day forecast from OpenWeatherMap''\<rparr>,
            trace = [CacheSelect (location_of req) (now_lookup w - 6 * 60 * 60 * 1000),
                     UpstreamGet ''forecast'' (location_of req),
                     CacheInsert \<lparr>row_location = location_of req,
                                  forecast_data = \<lparr>fc_location = location_of req, forecast = fc,
                                                    fc_fetched_at = now_payload w\<rparr>,
                                  row_fetched_at = now_insert w\<rparr>],
            rows_after = rows w\<rparr>"
proof -
  have sel: "select_latest row_location row_fetched_at w (location_of req)
               (now_lookup w - 6 * 60 * 60 * 1000) = (None, select_error w)"
    by (rule select_latest_miss) (use assms(2) in simp)
  show ?thesis
    using assms(1,3-7) sel
    unfolding forecast_handler_def Let_def success_def insert_row_def by simp
qed

lemma weather_insert_fails:
  assumes "http_method req \<noteq> ''OPTIONS''"
    and "select_error w \<noteq> None \<or>
         (\<forall>r \<in> set (rows w). \<not> (location r = location_of req \<and>
                                  now_lookup w - 30 * 60 * 1000 \<le> fetched_at r))"
    and "key_set (api_key w)" and "upstream w = HttpResponse st (Inr js)"
    and "response_ok st" and "insert_error w = Some e"
  shows "weather_handler req w =
           \<lparr>response = \<lparr>status = 200, headers = jsonHeaders,
                         body = Success (weatherData (location_of req) (now_payload w) js)
                                  ''api'' ''Fresh data from weather service''\<rparr>,
            trace = [CacheSelect (location_of req) (now_lookup w - 30 * 60 * 1000),
                     UpstreamGet ''weather'' (location_of req),
                     CacheInsert (weatherData (location_of req) (now_payload w) js)],
            rows_after = rows w\<rparr>"
proof -
  have sel: "select_latest location fetched_at w (location_of req)
               (now_lookup w - 30 * 60 * 1000) = (None, select_error w)"
    by (rule select_latest_miss) (use assms(2) in simp)
  show ?thesis
    using assms(1,3-6) sel
    unfolding weather_handler_def Let_def success_def insert_row_def by simp
qed

lemma sample_forecast_of:
  "forecast_of utc 1704848400000 sample_series = Inr sample_forecast"
  unfolding sample_series_def sample_forecast_def by code_simp

lemma sample_weatherData:
  "weatherData ''Valparaiso'' 1704848400100 sample_weather_json =
     \<lparr>location = ''Valparaiso'', temperature = Some (185 / 10), humidity = Some 55,
      wind_speed = Some 3, wind_direction = Some ''E'',
      weather_description = Some ''cielo claro'', fetched_at = 1704848400100\<rparr>"
  by (simp add: weatherData_def sample_weather_json_def num_or_null_def str_or_null_def
      degToCardinal_def math_round_def js_rem_def js_index_def directions_def
      floor_rat_numeral nearest_fixed)

text \<open>
  C7: a request that reaches the cache write after a successful fetch (a cache miss, a
  provider key, a success status, a body that parses and, for the forecast, an
  aggregation that does not throw) and whose insert fails: the handler answers 200
  with the freshly fetched payload and source \<open>api\<close>, the response it gives when the
  insert succeeds; the rows of the store are unchanged.
\<close>

theorem C7_insert_failure_keeps_response:
  "(http_method req \<noteq> ''OPTIONS'' \<and>
    (select_error w1 \<noteq> None \<or>
       (\<forall>r \<in> set (rows w1). \<not> (row_location r = location_of req \<and>
                                 now_lookup w1 - 6 * 60 * 60 * 1000 \<le> row_fetched_at r))) \<and>
    key_set (api_key w1) \<and> upstream w1 = HttpResponse st1 (Inr series) \<and> response_ok st1 \<and>
    forecast_of (tz w1) (now_process w1) series = Inr fc \<and> insert_error w1 = Some e1 \<longrightarrow>
      forecast_handler req w1 =
        \<lparr>response = \<lparr>status = 200, headers = jsonHeaders,
                      body = Success \<lparr>fc_location = location_of req, forecast = fc,
                                      fc_fetched_at = now_payload w1\<rparr>
                               ''api'' ''Fresh 5-day forecast from OpenWeatherMap''\<rparr>,
         trace = [CacheSelect (location_of req) (now_lookup w1 - 6 * 60 * 60 * 1000),
                  UpstreamGet ''forecast'' (location_of req),
                  CacheInsert \<lparr>row_location = location_of req,
                               forecast_data = \<lparr>fc_location = location_of req, forecast = fc,
                                                 fc_fetched_at = now_payload w1\<rparr>,
                               row_fetched_at = now_insert w1\<rparr>],
         rows_after = rows w1\<rparr> \<and>
      response (forecast_handler req (w1\<lparr>insert_error := None\<rparr>))
        = response (forecast_handler req w1)) \<and>
   (http_method req \<noteq> ''OPTIONS'' \<and>
    (select_error w2 \<noteq> None \<or>
       (\<forall>r \<in> set (rows w2). \<not> (location r = location_of req \<and>
                                 now_lookup w2 - 30 * 60 * 1000 \<le> fetched_at r))) \<and>
    key_set (api_key w2) \<and> upstream w2 = HttpResponse st2 (Inr js) \<and> response_ok st2 \<and>
    insert_error w2 = Some e2 \<longrightarrow>
      weather_handler req w2 =
        \<lparr>response = \<lparr>status = 200, headers = jsonHeaders,
                      body = Success (weatherData (location_of req) (now_payload w2) js)
                               ''api'' ''Fresh data from weather service''\<rparr>,
         trace = [CacheSelect (location_of req) (now_lookup w2 - 30 * 60 * 1000),
                  UpstreamGet ''weather'' (location_of req),
                  CacheInsert (weatherData (location_of req) (now_payload w2) js)],
         rows_after = rows w2\<rparr> \<and>
      response (weather_handler req (w2\<lparr>insert_error := None\<rparr>))
        = response (weather_handler req w2))"
  using forecast_insert_fails [of req w1 st1 series fc e1]
    forecast_response_insert_error [where req = req and w = w1 and e = None]
    weather_insert_fails [of req w2 st2 js e2]
    weather_response_insert_error [where req = req and w = w2 and e = None]
  by blast

theorem C7_insert_failure_keeps_response_witness:
  "forecast_handler sample_request
     (sample_forecast_world\<lparr>rows := [], insert_error := Some ''timeout'',
                             upstream := HttpResponse 200 (Inr sample_series)\<rparr>) =
     \<lparr>response = \<lparr>status = 200, headers = jsonHeaders,
                   body = Success \<lparr>fc_location = ''Valparaiso'', forecast = sample_forecast,
                                   fc_fetched_at = 1704848400100\<rparr>
                            ''api'' ''Fresh 5-day forecast from OpenWeatherMap''\<rparr>,
      trace = [CacheSelect ''Valparaiso'' 1704826800000,
               UpstreamGet ''forecast'' ''Valparaiso'',
               CacheInsert \<lparr>row_location = ''Valparaiso'',
                            forecast_data = \<lparr>fc_location = ''Valparaiso'',
                                              forecast = sample_forecast,
                                              fc_fetched_at = 1704848400100\<rparr>,
                            row_fetched_at = 1704848400200\<rparr>],
      rows_after = []\<rparr> \<and>
   weather_handler sample_request
     (sample_weather_world\<lparr>rows := [], insert_error := Some ''timeout'',
                            upstream := HttpResponse 200 (Inr sample_weather_json)\<rparr>) =
     \<lparr>response = \<lparr>status = 200, headers = jsonHeaders,
                   body = Success
                     \<lparr>location = ''Valparaiso'', temperature = Some (185 / 10),
                      humidity = Some 55, wind_speed = Some 3, wind_direction = Some ''E'',
                      weather_description = Some ''cielo claro'',
                      fetched_at = 1704848400100\<rparr>
                     ''api'' ''Fresh data from weather service''\<rparr>,
      trace = [CacheSelect ''Valparaiso'' 1704846600000,
               UpstreamGet ''weather'' ''Valparaiso'',
               CacheInsert
                 \<lparr>location = ''Valparaiso'', temperature = Some (185 / 10),
                  humidity = Some 55, wind_speed = Some 3, wind_direction = Some ''E'',
                  weather_description = Some ''cielo claro'',
                  fetched_at = 1704848400100\<rparr>],
      rows_after = []\<rparr>"
  using C7_insert_failure_keeps_response
    [where req = sample_request
       and ?w1.0 = "sample_forecast_world\<lparr>rows := [], insert_error := Some ''timeout'',
                                           upstream := HttpResponse 200 (Inr sample_series)\<rparr>"
       and ?st1.0 = 200 and series = sample_series and fc = sample_forecast
       and ?e1.0 = "''timeout''"
       and ?w2.0 = "sample_weather_world\<lparr>rows := [], insert_error := Some ''timeout'',
                                          upstream := HttpResponse 200 (Inr sample_weather_json)\<rparr>"
       and ?st2.0 = 200 and js = sample_weather_json and ?e2.0 = "''timeout''"]
    sample_forecast_of sample_weatherData
  by (simp add: sample_request_def sample_forecast_world_def sample_weather_world_def
      location_of_def key_set_def response_ok_def)

end
